theory Spec2Isabelle
  imports Complex_Main
begin

section \<open>Data model (types.ts)\<close>

text \<open>
  The model year and the odometer of a vehicle are whole numbers read by \<open>parseInt\<close>,
  which returns \<open>NaN\<close> on text without digits; whole numbers of this size, and their
  differences, are exact in a double, so such a \<open>number\<close> is \<open>NaN\<close> or a real.
  Every comparison with \<open>NaN\<close> is false, and arithmetic on \<open>NaN\<close> gives \<open>NaN\<close>.
\<close>

datatype number = NaN | Num real

fun js_sub :: "number \<Rightarrow> number \<Rightarrow> number" where
  "js_sub (Num a) (Num b) = Num (a - b)"
| "js_sub _ _ = NaN"

fun js_gt :: "number \<Rightarrow> real \<Rightarrow> bool" where
  "js_gt (Num a) b = (a > b)"
| "js_gt NaN b = False"

subsection \<open>Double-precision amounts\<close>

text \<open>
  The estimates and the detected total are amounts with fractions, and the statistics
  add, subtract and divide them, so their rounding is part of the model: a value is
  \<open>NaN\<close>, an infinity, or a real number that a binary64 double holds, and every
  operation returns the exact result rounded to the nearest double, ties to the even
  significand. The two zeros are one value: the code below only adds, subtracts,
  compares, and divides by a positive number, and none of these tells them apart.
\<close>

datatype float64 = NaN64 | PosInf | NegInf | F64 real

definition roundHalfEven :: "real \<Rightarrow> int" where
  "roundHalfEven x =
     (let f = \<lfloor>x\<rfloor>
      in if x - of_int f < 1 / 2 then f
         else if x - of_int f > 1 / 2 then f + 1
         else if even f then f else f + 1)"

text \<open>
  The binary exponent of a positive number, found by halving or doubling. With 1024
  steps up and 1022 steps down the result stays in the range from -1022, the exponent of
  the subnormal numbers, to 1024, where every number overflows.
\<close>

fun binadeUp :: "nat \<Rightarrow> real \<Rightarrow> int" where
  "binadeUp 0 x = 0"
| "binadeUp (Suc n) x = (if x < 2 then 0 else 1 + binadeUp n (x / 2))"

fun binadeDown :: "nat \<Rightarrow> real \<Rightarrow> int" where
  "binadeDown 0 x = 0"
| "binadeDown (Suc n) x = (if 1 \<le> x then 0 else binadeDown n (2 * x) - 1)"

definition exponent64 :: "real \<Rightarrow> int" where
  "exponent64 x = (if 1 \<le> \<bar>x\<bar> then binadeUp 1024 \<bar>x\<bar> else binadeDown 1022 \<bar>x\<bar>)"

text \<open>The distance between neighbouring doubles at \<open>x\<close>: 2 to the exponent minus 52.\<close>

definition ulp64 :: "real \<Rightarrow> real" where
  "ulp64 x =
     (let e = exponent64 x
      in if 52 \<le> e then 2 ^ nat (e - 52) else 1 / 2 ^ nat (52 - e))"

definition round64 :: "real \<Rightarrow> float64" where
  "round64 x =
     (let r = ulp64 x * of_int (roundHalfEven (x / ulp64 x))
      in if 2 ^ 1024 \<le> r then PosInf
         else if r \<le> - (2 ^ 1024) then NegInf
         else F64 r)"

fun d_add :: "float64 \<Rightarrow> float64 \<Rightarrow> float64" where
  "d_add (F64 a) (F64 b) = round64 (a + b)"
| "d_add NaN64 y = NaN64"
| "d_add x NaN64 = NaN64"
| "d_add PosInf NegInf = NaN64"
| "d_add NegInf PosInf = NaN64"
| "d_add PosInf y = PosInf"
| "d_add NegInf y = NegInf"
| "d_add (F64 a) y = y"

fun d_sub :: "float64 \<Rightarrow> float64 \<Rightarrow> float64" where
  "d_sub (F64 a) (F64 b) = round64 (a - b)"
| "d_sub NaN64 y = NaN64"
| "d_sub x NaN64 = NaN64"
| "d_sub PosInf PosInf = NaN64"
| "d_sub NegInf NegInf = NaN64"
| "d_sub PosInf y = PosInf"
| "d_sub NegInf y = NegInf"
| "d_sub (F64 a) PosInf = NegInf"
| "d_sub (F64 a) NegInf = PosInf"

text \<open>
  Division; a zero divisor is the positive zero (every divisor in the code is a count
  or a positive literal).
\<close>

fun d_div :: "float64 \<Rightarrow> float64 \<Rightarrow> float64" where
  "d_div (F64 a) (F64 b) =
     (if b = 0 then (if a = 0 then NaN64 else if 0 < a then PosInf else NegInf)
      else round64 (a / b))"
| "d_div NaN64 y = NaN64"
| "d_div x NaN64 = NaN64"
| "d_div (F64 a) y = F64 0"
| "d_div PosInf (F64 b) = (if b < 0 then NegInf else PosInf)"
| "d_div NegInf (F64 b) = (if b < 0 then PosInf else NegInf)"
| "d_div x y = NaN64"

fun d_less :: "float64 \<Rightarrow> float64 \<Rightarrow> bool" where
  "d_less (F64 a) (F64 b) = (a < b)"
| "d_less NaN64 y = False"
| "d_less x NaN64 = False"
| "d_less NegInf NegInf = False"
| "d_less NegInf y = True"
| "d_less x PosInf = (x \<noteq> PosInf)"
| "d_less x y = False"

text \<open>\<open>Math.abs\<close> and \<open>Math.max\<close>; the maximum is \<open>NaN\<close> when an argument is.\<close>

fun d_abs :: "float64 \<Rightarrow> float64" where
  "d_abs (F64 a) = F64 \<bar>a\<bar>"
| "d_abs NaN64 = NaN64"
| "d_abs x = PosInf"

fun d_max :: "float64 \<Rightarrow> float64 \<Rightarrow> float64" where
  "d_max NaN64 y = NaN64"
| "d_max x NaN64 = NaN64"
| "d_max x y = (if d_less x y then y else x)"

text \<open>
  The two enumerations share member names, and several interfaces share field names
  (\<open>id\<close>, \<open>name\<close>, \<open>type\<close>, \<open>timestamp\<close>, \<open>from\<close>, \<open>to\<close>, \<open>make\<close>, \<open>model\<close>); where a name
  would clash it carries the name of its type as a prefix.
\<close>

datatype InventoryProgram = Program_HCUV | Program_HAPO | Program_CERTIFIED

datatype PostReviewStatus = HCUV | HAPO | CERTIFIED | WHOLESALE | AS_IS_RETAIL

datatype InspectionType = ONTARIO_SAFETY | Type_HCUV | BOTH

datatype OutcomeStatus = PASS | FAIL | CONDITIONAL

datatype AnalysisMode = AUDIT | APPRAISAL

datatype AcquisitionType = Trade | Street_Purchase | Lease_Return | Auction

datatype MoveType = Upgrade | Downgrade | Lateral

datatype DealershipBrand = Honda | Toyota | Chevrolet | Ford | Hyundai | Nissan | Other

text \<open>The string value of each member of \<open>PostReviewStatus\<close>.\<close>

fun PostReviewStatus_value :: "PostReviewStatus \<Rightarrow> string" where
  "PostReviewStatus_value HCUV = ''HCUV''"
| "PostReviewStatus_value HAPO = ''HAPO''"
| "PostReviewStatus_value CERTIFIED = ''Certified''"
| "PostReviewStatus_value WHOLESALE = ''Wholesale''"
| "PostReviewStatus_value AS_IS_RETAIL = ''As-Is Retail''"

text \<open>
  \<open>data.program as unknown as PostReviewStatus\<close>: both enums are strings, and the three
  programs have the string values of the first three statuses.
\<close>

fun program_as_status :: "InventoryProgram \<Rightarrow> PostReviewStatus" where
  "program_as_status Program_HCUV = HCUV"
| "program_as_status Program_HAPO = HAPO"
| "program_as_status Program_CERTIFIED = CERTIFIED"

record Appraiser =
  appraiser_id :: string
  appraiser_name :: string

record Technician =
  tech_id :: string
  tech_name :: string
  techNumber :: string

datatype StandardType = SAFETY | STD_HCUV | DEALERSHIP | HONDA_MAINTENANCE

record StandardDocument =
  doc_id :: string
  doc_type :: StandardType
  fileName :: string
  uploadDate :: int
  extractedRules :: string

record Vehicle =
  vin :: string
  year :: number
  vehicle_make :: string
  vehicle_model :: string
  trim :: string
  kilometres :: number
  stockNumber :: "string option"
  acquisitionType :: AcquisitionType

text \<open>
  The two estimates are \<open>number\<close> in the interface, and every reader guards them with
  \<open>|| 0\<close>; \<open>None\<close> is a field that is missing (\<open>undefined\<close> or \<open>null\<close>) in the stored
  value. The analysis is the text of the model, kept as its UTF-16 code units.
\<close>

record InspectionData =
  inspection_type :: InspectionType
  program :: InventoryProgram
  safetyOutcome :: OutcomeStatus
  hcuvOutcome :: OutcomeStatus
  technicianNotes :: string
  technicianName :: string
  appraiserName :: string
  appraiserNotes :: string
  managerAppraisalEstimate :: "float64 option"
  serviceDepartmentEstimate :: "float64 option"
  attachments :: "string list"

record StatusHistoryEntry =
  entry_from :: PostReviewStatus
  entry_to :: PostReviewStatus
  entry_timestamp :: int
  entry_type :: MoveType

record InspectionCase =
  case_id :: string
  timestamp :: int
  mode :: AnalysisMode
  vehicle :: Vehicle
  data :: InspectionData
  analysis :: "nat list option"
  detectedTotal :: "float64 option"
  currentStatus :: PostReviewStatus
  statusHistory :: "StatusHistoryEntry list"

record Eligibility =
  ok :: bool
  reason :: "string option"

section \<open>Eligibility (AnalysisView.tsx, InspectionForm.tsx)\<close>

text \<open>
  \<open>checkEligibility\<close> of the analysis view, a closure over \<open>currentYear\<close> and the
  \<open>caseData\<close> property, which may be absent.
\<close>

definition AnalysisView_checkEligibility ::
  "int \<Rightarrow> InspectionCase option \<Rightarrow> PostReviewStatus \<Rightarrow> Eligibility" where
  "AnalysisView_checkEligibility currentYear caseData status =
     (case caseData of
        None \<Rightarrow> \<lparr>ok = True, reason = None\<rparr>
      | Some c \<Rightarrow>
          (let age = js_sub (Num (of_int currentYear)) (year (vehicle c));
               kms = kilometres (vehicle c)
           in if status = HCUV \<and> js_gt age 6 then \<lparr>ok = False, reason = Some ''Age > 6yr''\<rparr>
              else if status = HCUV \<and> js_gt kms 120000 then \<lparr>ok = False, reason = Some ''KM > 120k''\<rparr>
              else if status = HAPO \<and> js_gt age 10 then \<lparr>ok = False, reason = Some ''Age > 10yr''\<rparr>
              else if status = HAPO \<and> js_gt kms 200000 then \<lparr>ok = False, reason = Some ''KM > 200k''\<rparr>
              else \<lparr>ok = True, reason = None\<rparr>))"

text \<open>\<open>checkEligibility\<close> of the intake form, a closure over \<open>currentYear\<close> and \<open>vehicle\<close>.\<close>

definition InspectionForm_checkEligibility ::
  "int \<Rightarrow> Vehicle \<Rightarrow> InventoryProgram \<Rightarrow> Eligibility" where
  "InspectionForm_checkEligibility currentYear v prog =
     (let age = js_sub (Num (of_int currentYear)) (year v);
          kms = kilometres v
      in if prog = Program_HCUV \<and> js_gt age 6 then \<lparr>ok = False, reason = Some ''Age > 6yrs''\<rparr>
         else if prog = Program_HCUV \<and> js_gt kms 120000 then \<lparr>ok = False, reason = Some ''KM > 120k''\<rparr>
         else if prog = Program_HAPO \<and> js_gt age 10 then \<lparr>ok = False, reason = Some ''Age > 10yrs''\<rparr>
         else if prog = Program_HAPO \<and> js_gt kms 200000 then \<lparr>ok = False, reason = Some ''KM > 200k''\<rparr>
         else \<lparr>ok = True, reason = None\<rparr>)"

text \<open>The effect that adjusts the selected program when the year or the odometer changes.\<close>

definition autoAdjustProgram :: "int \<Rightarrow> Vehicle \<Rightarrow> InspectionData \<Rightarrow> InspectionData" where
  "autoAdjustProgram currentYear v d =
     (let hcuv = InspectionForm_checkEligibility currentYear v Program_HCUV;
          hapo = InspectionForm_checkEligibility currentYear v Program_HAPO
      in if program d = Program_HCUV \<and> \<not> ok hcuv
         then d\<lparr>program := (if ok hapo then Program_HAPO else Program_CERTIFIED)\<rparr>
         else if program d = Program_HAPO \<and> \<not> ok hapo
         then d\<lparr>program := Program_CERTIFIED\<rparr>
         else d)"

section \<open>Persistence gateway (storageService)\<close>

text \<open>
  The gateway with the local fallback: every operation goes to the local storage when
  no remote client is configured and to the remote tables otherwise, and a save throws
  the error of a remote request.

  The remote tables of \<open>supabase_schema.sql\<close>, each a list of rows. \<open>appraisers\<close>,
  \<open>technicians\<close> and \<open>inspection_cases\<close> have \<open>id\<close> as primary key, \<open>settings\<close> has \<open>key\<close>,
  and \<open>standards\<close> is unique on \<open>type\<close>. The rows written by the gateway are stored as the
  records they come from (the \<open>id\<close> of a standard is not sent, and is carried along
  unread); the \<open>created_at\<close> column, filled by the server, is left out, and the ISO-8601
  text of a timestamp is kept as the millisecond count it is converted from and back to.
\<close>

record Supabase =
  tbl_settings :: "(string \<times> DealershipBrand) list"
  tbl_appraisers :: "Appraiser list"
  tbl_technicians :: "Technician list"
  tbl_standards :: "StandardDocument list"
  tbl_inspection_cases :: "InspectionCase list"

text \<open>
  The browser's local storage, one value per key; \<open>getLocal\<close> reads a key that is absent
  as the empty list, so the four lists are kept as lists.
\<close>

record LocalStorage =
  ls_brand :: "DealershipBrand option"
  ls_cases :: "InspectionCase list"
  ls_appraisers :: "Appraiser list"
  ls_technicians :: "Technician list"
  ls_standards :: "StandardDocument list"

text \<open>\<open>supabase\<close> is \<open>null\<close> when no credentials are configured.\<close>

record World =
  supabase :: "Supabase option"
  localStorage :: LocalStorage

datatype StorageError = RequestFailed | UniqueViolation | QuotaExceeded

text \<open>
  The remote requests the gateway issues: \<open>insert\<close> is refused when a row with the same
  key exists, \<open>upsert\<close> replaces that row or appends, \<open>order\<close> with \<open>ascending: false\<close>
  returns the rows by descending column value.
\<close>

fun db_upsert :: "('r \<Rightarrow> 'k) \<Rightarrow> 'r \<Rightarrow> 'r list \<Rightarrow> 'r list" where
  "db_upsert key r [] = [r]"
| "db_upsert key r (x # xs) = (if key x = key r then r # xs else x # db_upsert key r xs)"

definition db_insert :: "('r \<Rightarrow> 'k) \<Rightarrow> 'r \<Rightarrow> 'r list \<Rightarrow> StorageError + 'r list" where
  "db_insert key r rows =
     (if key r \<in> set (map key rows) then Inl UniqueViolation else Inr (rows @ [r]))"

definition db_order_desc :: "('r \<Rightarrow> int) \<Rightarrow> 'r list \<Rightarrow> 'r list" where
  "db_order_desc col rows = rev (sort_key col rows)"

text \<open>
  \<open>setLocal\<close>: the write is dropped when \<open>setItem\<close> throws (the quota alert), and the
  exception is swallowed. \<open>fails\<close> says whether the underlying write or request fails.
\<close>

definition setLocal :: "bool \<Rightarrow> (LocalStorage \<Rightarrow> LocalStorage) \<Rightarrow> World \<Rightarrow> World" where
  "setLocal fails upd w = (if fails then w else w\<lparr>localStorage := upd (localStorage w)\<rparr>)"

definition saveBrand :: "bool \<Rightarrow> World \<Rightarrow> DealershipBrand \<Rightarrow> StorageError + World" where
  "saveBrand fails w brand =
     (case supabase w of
        None \<Rightarrow>
          (if fails then Inl QuotaExceeded
           else Inr (w\<lparr>localStorage := (localStorage w)\<lparr>ls_brand := Some brand\<rparr>\<rparr>))
      | Some db \<Rightarrow>
          (if fails then Inl RequestFailed
           else Inr (w\<lparr>supabase := Some (db\<lparr>tbl_settings :=
                  db_upsert fst (''dealership_brand'', brand) (tbl_settings db)\<rparr>)\<rparr>)))"

definition saveAppraiser :: "bool \<Rightarrow> World \<Rightarrow> Appraiser \<Rightarrow> StorageError + World" where
  "saveAppraiser fails w appraiser =
     (case supabase w of
        None \<Rightarrow> Inr (setLocal fails (\<lambda>ls. ls\<lparr>ls_appraisers := ls_appraisers ls @ [appraiser]\<rparr>) w)
      | Some db \<Rightarrow>
          (if fails then Inl RequestFailed
           else case db_insert appraiser_id appraiser (tbl_appraisers db) of
                  Inl e \<Rightarrow> Inl e
                | Inr rows \<Rightarrow> Inr (w\<lparr>supabase := Some (db\<lparr>tbl_appraisers := rows\<rparr>)\<rparr>)))"

definition saveTechnician :: "bool \<Rightarrow> World \<Rightarrow> Technician \<Rightarrow> StorageError + World" where
  "saveTechnician fails w tech =
     (case supabase w of
        None \<Rightarrow> Inr (setLocal fails (\<lambda>ls. ls\<lparr>ls_technicians := ls_technicians ls @ [tech]\<rparr>) w)
      | Some db \<Rightarrow>
          (if fails then Inl RequestFailed
           else case db_insert tech_id tech (tbl_technicians db) of
                  Inl e \<Rightarrow> Inl e
                | Inr rows \<Rightarrow> Inr (w\<lparr>supabase := Some (db\<lparr>tbl_technicians := rows\<rparr>)\<rparr>)))"

text \<open>
  \<open>findIndex\<close> followed by the assignment at that index or by \<open>unshift\<close> / \<open>push\<close>:
  the first element with the key is replaced where it stands.
\<close>

fun replaceFirst :: "('r \<Rightarrow> bool) \<Rightarrow> 'r \<Rightarrow> 'r list \<Rightarrow> 'r list option" where
  "replaceFirst p r [] = None"
| "replaceFirst p r (x # xs) =
     (if p x then Some (r # xs) else map_option ((#) x) (replaceFirst p r xs))"

definition saveCase :: "bool \<Rightarrow> World \<Rightarrow> InspectionCase \<Rightarrow> StorageError + World" where
  "saveCase fails w newCase =
     (case supabase w of
        None \<Rightarrow>
          Inr (setLocal fails (\<lambda>ls. ls\<lparr>ls_cases :=
                 (case replaceFirst (\<lambda>c. case_id c = case_id newCase) newCase (ls_cases ls) of
                    Some cases \<Rightarrow> cases
                  | None \<Rightarrow> newCase # ls_cases ls)\<rparr>) w)
      | Some db \<Rightarrow>
          (if fails then Inl RequestFailed
           else Inr (w\<lparr>supabase := Some (db\<lparr>tbl_inspection_cases :=
                  db_upsert case_id newCase (tbl_inspection_cases db)\<rparr>)\<rparr>)))"

text \<open>A failed remote read is logged and gives the empty list.\<close>

definition getAllCases :: "bool \<Rightarrow> World \<Rightarrow> InspectionCase list" where
  "getAllCases fails w =
     (case supabase w of
        None \<Rightarrow> ls_cases (localStorage w)
      | Some db \<Rightarrow> (if fails then [] else db_order_desc timestamp (tbl_inspection_cases db)))"

definition saveStandard :: "bool \<Rightarrow> World \<Rightarrow> StandardDocument \<Rightarrow> StorageError + World" where
  "saveStandard fails w doc =
     (case supabase w of
        None \<Rightarrow>
          Inr (setLocal fails (\<lambda>ls. ls\<lparr>ls_standards :=
                 (case replaceFirst (\<lambda>s. doc_type s = doc_type doc) doc (ls_standards ls) of
                    Some standards \<Rightarrow> standards
                  | None \<Rightarrow> ls_standards ls @ [doc])\<rparr>) w)
      | Some db \<Rightarrow>
          (if fails then Inl RequestFailed
           else Inr (w\<lparr>supabase := Some (db\<lparr>tbl_standards :=
                  db_upsert doc_type doc (tbl_standards db)\<rparr>)\<rparr>)))"

text \<open>
  \<open>syncLocalToCloud\<close>. \<open>fails n\<close> says whether the request issued when \<open>count\<close> is \<open>n\<close>
  fails; \<open>Inl\<close> carries the count reached when a save threw.
\<close>

record SyncResult =
  success :: bool
  count :: nat

fun syncEach ::
  "(bool \<Rightarrow> World \<Rightarrow> 'a \<Rightarrow> StorageError + World) \<Rightarrow> (nat \<Rightarrow> bool) \<Rightarrow> 'a list \<Rightarrow>
   nat \<times> World \<Rightarrow> (nat \<times> World) + (nat \<times> World)" where
  "syncEach save fails [] (n, w) = Inr (n, w)"
| "syncEach save fails (x # xs) (n, w) =
     (case save (fails n) w x of
        Inl e \<Rightarrow> Inl (n, w)
      | Inr w' \<Rightarrow> syncEach save fails xs (Suc n, w'))"

definition andThen :: "'e + 'a \<Rightarrow> ('a \<Rightarrow> 'e + 'b) \<Rightarrow> 'e + 'b" where
  "andThen r f = (case r of Inl e \<Rightarrow> Inl e | Inr a \<Rightarrow> f a)"

definition syncLocalToCloud :: "(nat \<Rightarrow> bool) \<Rightarrow> World \<Rightarrow> SyncResult \<times> World" where
  "syncLocalToCloud fails w =
     (case supabase w of
        None \<Rightarrow> (\<lparr>success = False, count = 0\<rparr>, w)
      | Some db \<Rightarrow>
          (let ls = localStorage w;
               brandStep =
                 (case ls_brand ls of
                    None \<Rightarrow> Inr (0, w)
                  | Some brand \<Rightarrow>
                      (case saveBrand (fails 0) w brand of
                         Inl e \<Rightarrow> Inl (0, w)
                       | Inr w' \<Rightarrow> Inr (Suc 0, w')));
               r = andThen (andThen (andThen (andThen brandStep
                     (syncEach saveAppraiser fails (ls_appraisers ls)))
                     (syncEach saveTechnician fails (ls_technicians ls)))
                     (syncEach saveStandard fails (ls_standards ls)))
                     (syncEach saveCase fails (ls_cases ls))
           in case r of
                Inl (n, w') \<Rightarrow> (\<lparr>success = False, count = n\<rparr>, w')
              | Inr (n, w') \<Rightarrow> (\<lparr>success = True, count = n\<rparr>, w')))"

section \<open>Status transitions (AnalysisView.tsx)\<close>

fun hierarchy :: "PostReviewStatus \<Rightarrow> int" where
  "hierarchy HCUV = 4"
| "hierarchy HAPO = 3"
| "hierarchy CERTIFIED = 2"
| "hierarchy AS_IS_RETAIL = 1"
| "hierarchy WHOLESALE = 0"

definition determineMoveType :: "PostReviewStatus \<Rightarrow> PostReviewStatus \<Rightarrow> MoveType" where
  "determineMoveType from to =
     (let diff = hierarchy to - hierarchy from
      in if diff > 0 then Upgrade else if diff < 0 then Downgrade else Lateral)"

text \<open>
  What one call of \<open>handleStatusChange\<close> does: it returns at once, alerts and returns,
  saves and hands the updated case to \<open>onUpdateCase\<close>, or is left by the exception of
  \<open>saveCase\<close>.
\<close>

datatype StatusChangeOutcome =
  Ignored
| Rejected string
| Transitioned InspectionCase
| SaveThrew StorageError

definition handleStatusChange ::
  "int \<Rightarrow> int \<Rightarrow> bool \<Rightarrow> World \<Rightarrow> InspectionCase option \<Rightarrow> PostReviewStatus \<Rightarrow>
   StatusChangeOutcome \<times> World" where
  "handleStatusChange currentYear now fails w caseData newStatus =
     (case caseData of
        None \<Rightarrow> (Ignored, w)
      | Some c \<Rightarrow>
          if newStatus = currentStatus c then (Ignored, w)
          else
            (let eligibility = AnalysisView_checkEligibility currentYear caseData newStatus
             in if \<not> ok eligibility
                then (Rejected (''Vehicle ineligible for '' @ PostReviewStatus_value newStatus @ '': ''
                         @ (case reason eligibility of Some r \<Rightarrow> r | None \<Rightarrow> ''undefined'')), w)
                else
                  (let entry = \<lparr>entry_from = currentStatus c, entry_to = newStatus,
                                 entry_timestamp = now,
                                 entry_type = determineMoveType (currentStatus c) newStatus\<rparr>;
                       updatedCase = c\<lparr>currentStatus := newStatus,
                                       statusHistory := statusHistory c @ [entry]\<rparr>
                   in case saveCase fails w updatedCase of
                        Inl e \<Rightarrow> (SaveThrew e, w)
                      | Inr w' \<Rightarrow> (Transitioned updatedCase, w'))))"

text \<open>
  A status-change request as the application sees it: the view is rendered with the
  active case, and \<open>onUpdateCase\<close> is \<open>handleUpdateCase\<close>, which makes the updated case
  the active one. The calendar year, the clock and the fate of the write belong to
  each request.
\<close>

record StatusRequest =
  req_status :: PostReviewStatus
  req_currentYear :: int
  req_now :: int
  req_fails :: bool

definition requestStatusChange ::
  "InspectionCase \<times> World \<Rightarrow> StatusRequest \<Rightarrow> InspectionCase \<times> World" where
  "requestStatusChange st r =
     (case handleStatusChange (req_currentYear r) (req_now r) (req_fails r) (snd st)
             (Some (fst st)) (req_status r) of
        (Transitioned c', w') \<Rightarrow> (c', w')
      | (_, w') \<Rightarrow> (fst st, w'))"

definition requestStatusChanges ::
  "InspectionCase \<times> World \<Rightarrow> StatusRequest list \<Rightarrow> InspectionCase \<times> World" where
  "requestStatusChanges st rs = foldl requestStatusChange st rs"

section \<open>Technician profiles (storageService)\<close>

datatype ReliabilityTag = Aggressive | Accurate | Passive

record PerformanceStats =
  stats_technicianName :: string
  stats_appraiserName :: string
  totalCases :: nat
  avgVariance :: float64
  accuracyRating :: float64
  reliabilityTag :: ReliabilityTag

text \<open>
  The value of an entry of \<open>techMap\<close>. The count is a number of list elements, below
  \<open>2 ^ 32\<close>, which a double counts exactly.
\<close>

record TechStats =
  tech_total :: float64
  tech_variance :: float64
  tech_count :: nat

text \<open>\<open>x || 0\<close> on an estimate: a missing field, \<open>NaN\<close> and \<open>0\<close> all give \<open>0\<close>.\<close>

fun orZero :: "float64 option \<Rightarrow> float64" where
  "orZero None = F64 0"
| "orZero (Some NaN64) = F64 0"
| "orZero (Some x) = x"

definition caseVariance :: "InspectionCase \<Rightarrow> float64" where
  "caseVariance c =
     d_sub (orZero (serviceDepartmentEstimate (data c))) (orZero (managerAppraisalEstimate (data c)))"

text \<open>
  A \<open>Map\<close> keeps its keys in the order of their first insertion: \<open>set\<close> on a key that
  is present replaces the value where it stands.
\<close>

fun techMap_set :: "string \<Rightarrow> TechStats \<Rightarrow> (string \<times> TechStats) list \<Rightarrow> (string \<times> TechStats) list" where
  "techMap_set k v [] = [(k, v)]"
| "techMap_set k v (e # m) = (if fst e = k then (k, v) # m else e # techMap_set k v m)"

text \<open>\<open>techMap.get(name) || { total: 0, variance: 0, count: 0 }\<close>\<close>

definition techMap_getOrZero :: "(string \<times> TechStats) list \<Rightarrow> string \<Rightarrow> TechStats" where
  "techMap_getOrZero techMap name =
     (case map_of techMap name of
        Some s \<Rightarrow> s
      | None \<Rightarrow> \<lparr>tech_total = F64 0, tech_variance = F64 0, tech_count = 0\<rparr>)"

text \<open>The body of the \<open>forEach\<close>; a case without a technician name is skipped.\<close>

definition addCase :: "(string \<times> TechStats) list \<Rightarrow> InspectionCase \<Rightarrow> (string \<times> TechStats) list" where
  "addCase techMap c =
     (if technicianName (data c) = [] then techMap
      else
        (let stats = techMap_getOrZero techMap (technicianName (data c));
             stats' = stats\<lparr>tech_variance := d_add (tech_variance stats) (caseVariance c),
                             tech_count := tech_count stats + 1\<rparr>
         in techMap_set (technicianName (data c)) stats' techMap))"

definition toProfile :: "string \<times> TechStats \<Rightarrow> PerformanceStats" where
  "toProfile e =
     (let avg = d_div (tech_variance (snd e)) (F64 (real (tech_count (snd e))));
          tag = (if d_less (F64 1500) avg then Aggressive
                 else if d_less avg (F64 (- 500)) then Passive
                 else Accurate)
      in \<lparr>stats_technicianName = fst e, stats_appraiserName = [],
          totalCases = tech_count (snd e), avgVariance = avg,
          accuracyRating = d_max (F64 0) (d_sub (F64 100) (d_div (d_abs avg) (F64 100))),
          reliabilityTag = tag\<rparr>)"

definition technicianProfiles :: "InspectionCase list \<Rightarrow> PerformanceStats list" where
  "technicianProfiles cases = map toProfile (foldl addCase [] cases)"

definition getTechnicianProfiles :: "bool \<Rightarrow> World \<Rightarrow> PerformanceStats list" where
  "getTechnicianProfiles fails w = technicianProfiles (getAllCases fails w)"

section \<open>Case creation (geminiService.ts, App.tsx)\<close>

text \<open>
  The text of the model is a JavaScript string, a list of UTF-16 code units; the
  pattern and \<open>parseFloat\<close> work on code units.
\<close>

definition unitsOf :: "string \<Rightarrow> nat list" where
  "unitsOf s = map of_char s"

definition isDigit :: "nat \<Rightarrow> bool" where
  "isDigit c = (48 \<le> c \<and> c \<le> 57)"

text \<open>
  The class \<open>\s\<close>: tab, line feed, vertical tab, form feed, return, space, no-break
  space, U+1680, U+2000 to U+200A, the line and paragraph separators, U+202F, U+205F,
  U+3000 and the byte-order mark.
\<close>

definition isSpace :: "nat \<Rightarrow> bool" where
  "isSpace c =
     ((9 \<le> c \<and> c \<le> 13) \<or> c = 32 \<or> c = 160 \<or> c = 5760 \<or> (8192 \<le> c \<and> c \<le> 8202) \<or>
      c = 8232 \<or> c = 8233 \<or> c = 8239 \<or> c = 8287 \<or> c = 12288 \<or> c = 65279)"

text \<open>The class \<open>[\d,.]\<close>: a digit, the comma (44) or the dot (46).\<close>

definition isTotalChar :: "nat \<Rightarrow> bool" where
  "isTotalChar c = (isDigit c \<or> c = 44 \<or> c = 46)"

fun stripPrefix :: "nat list \<Rightarrow> nat list \<Rightarrow> nat list option" where
  "stripPrefix [] s = Some s"
| "stripPrefix (p # ps) [] = None"
| "stripPrefix (p # ps) (c # cs) = (if p = c then stripPrefix ps cs else None)"

text \<open>
  The pattern \<open>\[DETECTED_TOTAL:\s*([\d,.]+)\]\<close> tried at the head of a text; the result
  is the capture group. The character after the white space has to be of the group's
  class and the one after the group a closing bracket (93), so only the longest runs
  can match.
\<close>

definition matchTotalAt :: "nat list \<Rightarrow> nat list option" where
  "matchTotalAt s =
     (case stripPrefix (unitsOf ''[DETECTED_TOTAL:'') s of
        None \<Rightarrow> None
      | Some r \<Rightarrow>
          (let r' = dropWhile isSpace r;
               g = takeWhile isTotalChar r';
               rest = dropWhile isTotalChar r'
           in if g \<noteq> [] \<and> take 1 rest = [93] then Some g else None))"

text \<open>\<open>fullText.match\<close>: the leftmost position where the pattern matches.\<close>

fun matchTotal :: "nat list \<Rightarrow> nat list option" where
  "matchTotal [] = None"
| "matchTotal (c # cs) =
     (case matchTotalAt (c # cs) of Some g \<Rightarrow> Some g | None \<Rightarrow> matchTotal cs)"

definition digitsValue :: "nat list \<Rightarrow> nat" where
  "digitsValue ds = foldl (\<lambda>a c. 10 * a + (c - 48)) 0 ds"

text \<open>
  \<open>parseFloat\<close> on a text of digits and dots, which is what the capture group holds once
  its commas are removed: the longest prefix that is a decimal literal (digits, then
  optionally a dot and more digits, with a digit on one side at least) is read and
  rounded to the nearest double; the result is \<open>NaN\<close> when there is no such prefix.
\<close>

definition parseFloat :: "nat list \<Rightarrow> float64" where
  "parseFloat s =
     (let d1 = takeWhile isDigit s;
          rest = dropWhile isDigit s;
          d2 = (if take 1 rest = [46] then takeWhile isDigit (drop 1 rest) else [])
      in if d1 = [] \<and> d2 = [] then NaN64
         else round64 (real (digitsValue d1) + real (digitsValue d2) / 10 ^ length d2))"

record AnalysisResult =
  result_text :: "nat list"
  result_detectedTotal :: "float64 option"

text \<open>
  The part of \<open>analyzeInspection\<close> after the model has answered; its argument is
  \<open>response.text\<close>, which may be undefined.
\<close>

definition analyzeInspection_result :: "nat list option \<Rightarrow> AnalysisResult" where
  "analyzeInspection_result responseText =
     (let fullText = (case responseText of
                        None \<Rightarrow> unitsOf ''Analysis failed.''
                      | Some t \<Rightarrow> if t = [] then unitsOf ''Analysis failed.'' else t);
          totalMatch = matchTotal fullText;
          detected = (case totalMatch of
                        Some g \<Rightarrow> Some (parseFloat (filter (\<lambda>c. c \<noteq> 44) g))
                      | None \<Rightarrow> None)
      in \<lparr>result_text = fullText, result_detectedTotal = detected\<rparr>)"

text \<open>
  \<open>a || b\<close> on an optional amount: \<open>undefined\<close>, \<open>NaN\<close> and \<open>0\<close> are falsy, every
  other number and the infinities are truthy.
\<close>

fun truthy :: "float64 option \<Rightarrow> bool" where
  "truthy None = False"
| "truthy (Some NaN64) = False"
| "truthy (Some (F64 x)) = (x \<noteq> 0)"
| "truthy (Some x) = True"

definition js_or :: "float64 option \<Rightarrow> float64 option \<Rightarrow> float64 option" where
  "js_or a b = (if truthy a then a else b)"

datatype AiOutcome = RequestError | Response "nat list option"

text \<open>
  \<open>handleAnalyze\<close> from the answer of the model on: the case it builds becomes the
  active case and is saved; when the analysis throws, no case is built. \<open>newId\<close> is the
  UUID drawn and \<open>now\<close> the clock.
\<close>

definition newCaseOf ::
  "string \<Rightarrow> int \<Rightarrow> AnalysisResult \<Rightarrow> Vehicle \<Rightarrow> InspectionData \<Rightarrow> AnalysisMode \<Rightarrow> InspectionCase" where
  "newCaseOf newId now result v d m =
     \<lparr>case_id = newId, timestamp = now, mode = m, vehicle = v,
      data = d\<lparr>serviceDepartmentEstimate :=
                 js_or (result_detectedTotal result) (serviceDepartmentEstimate d)\<rparr>,
      analysis = Some (result_text result),
      detectedTotal = result_detectedTotal result,
      currentStatus = program_as_status (program d),
      statusHistory = []\<rparr>"

definition handleAnalyze ::
  "string \<Rightarrow> int \<Rightarrow> bool \<Rightarrow> AiOutcome \<Rightarrow> World \<Rightarrow> Vehicle \<Rightarrow> InspectionData \<Rightarrow> AnalysisMode \<Rightarrow>
   InspectionCase option \<times> World" where
  "handleAnalyze newId now fails ai w v d m =
     (case ai of
        RequestError \<Rightarrow> (None, w)
      | Response responseText \<Rightarrow>
          (let newCase = newCaseOf newId now (analyzeInspection_result responseText) v d m
           in (Some newCase,
               case saveCase fails w newCase of Inl e \<Rightarrow> w | Inr w' \<Rightarrow> w')))"

section \<open>Properties named by the specification\<close>

text \<open>
  A request is accepted when it asks for another status than the current one, the
  status is eligible, and the save does not throw (the local store swallows a failed
  write, the remote store throws).
\<close>

definition accepted :: "InspectionCase \<times> World \<Rightarrow> StatusRequest \<Rightarrow> bool" where
  "accepted st r =
     (req_status r \<noteq> currentStatus (fst st) \<and>
      ok (AnalysisView_checkEligibility (req_currentYear r) (Some (fst st)) (req_status r)) \<and>
      \<not> (supabase (snd st) \<noteq> None \<and> req_fails r))"

text \<open>The requests of a sequence that are accepted in the state they meet.\<close>

fun acceptedRequests :: "InspectionCase \<times> World \<Rightarrow> StatusRequest list \<Rightarrow> StatusRequest list" where
  "acceptedRequests st [] = []"
| "acceptedRequests st (r # rs) =
     (if accepted st r then r # acceptedRequests (requestStatusChange st r) rs
      else acceptedRequests (requestStatusChange st r) rs)"

text \<open>Newest first: the timestamp of each case is at least that of the next one.\<close>

fun newestFirst :: "InspectionCase list \<Rightarrow> bool" where
  "newestFirst [] = True"
| "newestFirst [c] = True"
| "newestFirst (c # d # cs) = (timestamp c \<ge> timestamp d \<and> newestFirst (d # cs))"

text \<open>
  The arithmetic mean of service estimate minus manager estimate, in exact arithmetic,
  with an estimate that is missing or not a number counted as 0.
\<close>

fun amount :: "float64 option \<Rightarrow> real" where
  "amount (Some (F64 x)) = x"
| "amount _ = 0"

definition arithmeticMean :: "InspectionCase list \<Rightarrow> real" where
  "arithmeticMean cs =
     sum_list (map (\<lambda>c. amount (serviceDepartmentEstimate (data c)) -
                         amount (managerAppraisalEstimate (data c))) cs) / real (length cs)"

text \<open>
  A text from which \<open>parseFloat\<close> reads a number: it begins with a digit, or with a dot
  (46) followed by a digit.
\<close>

fun startsWithNumber :: "nat list \<Rightarrow> bool" where
  "startsWithNumber [] = False"
| "startsWithNumber [c] = isDigit c"
| "startsWithNumber (c # d # cs) = (isDigit c \<or> (c = 46 \<and> isDigit d))"

section \<open>Sample values\<close>

text \<open>Concrete values at which the theorems below are instantiated.\<close>

definition sampleVehicle :: Vehicle where
  "sampleVehicle =
     \<lparr>vin = ''1HGCM82633A004352'', year = Num 2019, vehicle_make = ''Honda'',
      vehicle_model = ''Accord'', trim = ''EX'', kilometres = Num 50000,
      stockNumber = None, acquisitionType = Trade\<rparr>"

definition sampleData :: InspectionData where
  "sampleData =
     \<lparr>inspection_type = BOTH, program = Program_HCUV, safetyOutcome = PASS,
      hcuvOutcome = FAIL, technicianNotes = ''front pads 3mm'', technicianName = ''A'',
      appraiserName = ''B'', appraiserNotes = ''clean'',
      managerAppraisalEstimate = Some (F64 800), serviceDepartmentEstimate = Some (F64 1000),
      attachments = []\<rparr>"

definition sampleCase :: InspectionCase where
  "sampleCase =
     \<lparr>case_id = ''c1'', timestamp = 200, mode = AUDIT, vehicle = sampleVehicle,
      data = sampleData, analysis = None, detectedTotal = None,
      currentStatus = HCUV, statusHistory = []\<rparr>"

definition emptyLocalStorage :: LocalStorage where
  "emptyLocalStorage =
     \<lparr>ls_brand = None, ls_cases = [], ls_appraisers = [], ls_technicians = [],
      ls_standards = []\<rparr>"

definition emptySupabase :: Supabase where
  "emptySupabase =
     \<lparr>tbl_settings = [], tbl_appraisers = [], tbl_technicians = [], tbl_standards = [],
      tbl_inspection_cases = []\<rparr>"

definition localWorld :: World where
  "localWorld = \<lparr>supabase = None, localStorage = emptyLocalStorage\<rparr>"

definition remoteWorld :: World where
  "remoteWorld = \<lparr>supabase = Some emptySupabase, localStorage = emptyLocalStorage\<rparr>"

section \<open>Eligibility thresholds\<close>

lemma js_gt_mono: "js_gt a x \<Longrightarrow> y \<le> x \<Longrightarrow> js_gt a y"
  by (cases a) auto

text \<open>
  C2. For a vehicle of \<open>age\<close> whole years (the calendar year minus the model year) and
  \<open>km\<close> kilometres, both checks return eligible for the generic certified, wholesale
  and as-is retail targets; for the top-tier target they return ineligible with the
  age reason when \<open>age > 6\<close>, whatever the odometer, ineligible with the odometer reason
  when \<open>age \<le> 6\<close> and \<open>km > 120000\<close>, and eligible otherwise; for the mid-tier target the
  same holds with 10 years and 200000 km.
\<close>

theorem C2_checkEligibility_thresholds:
  assumes "year (vehicle c) = Num (of_int (cy - age))"
      and "kilometres (vehicle c) = Num (of_int km)"
  shows "(s \<in> {CERTIFIED, WHOLESALE, AS_IS_RETAIL} \<longrightarrow>
            AnalysisView_checkEligibility cy (Some c) s = \<lparr>ok = True, reason = None\<rparr>) \<and>
         (age > 6 \<longrightarrow>
            AnalysisView_checkEligibility cy (Some c) HCUV = \<lparr>ok = False, reason = Some ''Age > 6yr''\<rparr> \<and>
            InspectionForm_checkEligibility cy (vehicle c) Program_HCUV = \<lparr>ok = False, reason = Some ''Age > 6yrs''\<rparr>) \<and>
         (age \<le> 6 \<and> km > 120000 \<longrightarrow>
            AnalysisView_checkEligibility cy (Some c) HCUV = \<lparr>ok = False, reason = Some ''KM > 120k''\<rparr> \<and>
            InspectionForm_checkEligibility cy (vehicle c) Program_HCUV = \<lparr>ok = False, reason = Some ''KM > 120k''\<rparr>) \<and>
         (age \<le> 6 \<and> km \<le> 120000 \<longrightarrow>
            AnalysisView_checkEligibility cy (Some c) HCUV = \<lparr>ok = True, reason = None\<rparr> \<and>
            InspectionForm_checkEligibility cy (vehicle c) Program_HCUV = \<lparr>ok = True, reason = None\<rparr>) \<and>
         (age > 10 \<longrightarrow>
            AnalysisView_checkEligibility cy (Some c) HAPO = \<lparr>ok = False, reason = Some ''Age > 10yr''\<rparr> \<and>
            InspectionForm_checkEligibility cy (vehicle c) Program_HAPO = \<lparr>ok = False, reason = Some ''Age > 10yrs''\<rparr>) \<and>
         (age \<le> 10 \<and> km > 200000 \<longrightarrow>
            AnalysisView_checkEligibility cy (Some c) HAPO = \<lparr>ok = False, reason = Some ''KM > 200k''\<rparr> \<and>
            InspectionForm_checkEligibility cy (vehicle c) Program_HAPO = \<lparr>ok = False, reason = Some ''KM > 200k''\<rparr>) \<and>
         (age \<le> 10 \<and> km \<le> 200000 \<longrightarrow>
            AnalysisView_checkEligibility cy (Some c) HAPO = \<lparr>ok = True, reason = None\<rparr> \<and>
            InspectionForm_checkEligibility cy (vehicle c) Program_HAPO = \<lparr>ok = True, reason = None\<rparr>) \<and>
         InspectionForm_checkEligibility cy (vehicle c) Program_CERTIFIED = \<lparr>ok = True, reason = None\<rparr>"
proof -
  have age: "js_sub (Num (of_int cy)) (year (vehicle c)) = Num (of_int age)"
    using assms(1) by simp
  have gt_age: "\<And>n::int. js_gt (Num (of_int age)) (of_int n) = (age > n)"
    by simp
  have gt_km: "\<And>n::int. js_gt (Num (of_int km)) (of_int n) = (km > n)"
    by simp
  have a6: "js_gt (Num (of_int age)) 6 = (age > 6)" using gt_age [of 6] by simp
  have a10: "js_gt (Num (of_int age)) 10 = (age > 10)" using gt_age [of 10] by simp
  have k120: "js_gt (Num (of_int km)) 120000 = (km > 120000)" using gt_km [of 120000] by simp
  have k200: "js_gt (Num (of_int km)) 200000 = (km > 200000)" using gt_km [of 200000] by simp
  show ?thesis
    unfolding AnalysisView_checkEligibility_def InspectionForm_checkEligibility_def
    by (auto simp: Let_def age assms(2) a6 a10 k120 k200 simp del: js_gt.simps)
qed

theorem C2_checkEligibility_thresholds_witness:
  "year (vehicle sampleCase) = Num (of_int (2026 - 7)) \<and>
   kilometres (vehicle sampleCase) = Num (of_int 50000) \<and>
   (7::int) > 6 \<and> (7::int) \<le> 10 \<and> (50000::int) \<le> 200000 \<and>
   AnalysisView_checkEligibility 2026 (Some sampleCase) HCUV = \<lparr>ok = False, reason = Some ''Age > 6yr''\<rparr> \<and>
   InspectionForm_checkEligibility 2026 (vehicle sampleCase) Program_HCUV = \<lparr>ok = False, reason = Some ''Age > 6yrs''\<rparr> \<and>
   AnalysisView_checkEligibility 2026 (Some sampleCase) HAPO = \<lparr>ok = True, reason = None\<rparr> \<and>
   AnalysisView_checkEligibility 2026 (Some sampleCase) WHOLESALE = \<lparr>ok = True, reason = None\<rparr> \<and>
   year (vehicle (sampleCase\<lparr>vehicle := sampleVehicle\<lparr>kilometres := Num 250000\<rparr>\<rparr>)) = Num (of_int (2026 - 7)) \<and>
   kilometres (vehicle (sampleCase\<lparr>vehicle := sampleVehicle\<lparr>kilometres := Num 250000\<rparr>\<rparr>)) = Num (of_int 250000) \<and>
   (250000::int) > 200000 \<and>
   AnalysisView_checkEligibility 2026 (Some (sampleCase\<lparr>vehicle := sampleVehicle\<lparr>kilometres := Num 250000\<rparr>\<rparr>)) HCUV
     = \<lparr>ok = False, reason = Some ''Age > 6yr''\<rparr> \<and>
   AnalysisView_checkEligibility 2026 (Some (sampleCase\<lparr>vehicle := sampleVehicle\<lparr>kilometres := Num 250000\<rparr>\<rparr>)) HAPO
     = \<lparr>ok = False, reason = Some ''KM > 200k''\<rparr> \<and>
   year (vehicle (sampleCase\<lparr>vehicle := sampleVehicle\<lparr>kilometres := Num 250000\<rparr>\<rparr>)) = Num (of_int (2022 - 3)) \<and>
   (3::int) \<le> 6 \<and> (250000::int) > 120000 \<and>
   AnalysisView_checkEligibility 2022 (Some (sampleCase\<lparr>vehicle := sampleVehicle\<lparr>kilometres := Num 250000\<rparr>\<rparr>)) HCUV
     = \<lparr>ok = False, reason = Some ''KM > 120k''\<rparr> \<and>
   year (vehicle sampleCase) = Num (of_int (2022 - 3)) \<and> (50000::int) \<le> 120000 \<and>
   AnalysisView_checkEligibility 2022 (Some sampleCase) HCUV = \<lparr>ok = True, reason = None\<rparr> \<and>
   year (vehicle sampleCase) = Num (of_int (2031 - 12)) \<and> (12::int) > 10 \<and>
   AnalysisView_checkEligibility 2031 (Some sampleCase) HAPO = \<lparr>ok = False, reason = Some ''Age > 10yr''\<rparr> \<and>
   InspectionForm_checkEligibility 2031 (vehicle sampleCase) Program_HAPO = \<lparr>ok = False, reason = Some ''Age > 10yrs''\<rparr>"
proof -
  let ?c = "sampleCase\<lparr>vehicle := sampleVehicle\<lparr>kilometres := Num 250000\<rparr>\<rparr>"
  have y7: "year (vehicle sampleCase) = Num (of_int (2026 - 7))"
    and y3: "year (vehicle sampleCase) = Num (of_int (2022 - 3))"
    and y12: "year (vehicle sampleCase) = Num (of_int (2031 - 12))"
    and k: "kilometres (vehicle sampleCase) = Num (of_int 50000)"
    and y7': "year (vehicle ?c) = Num (of_int (2026 - 7))"
    and y3': "year (vehicle ?c) = Num (of_int (2022 - 3))"
    and k': "kilometres (vehicle ?c) = Num (of_int 250000)"
    by (simp_all add: sampleCase_def sampleVehicle_def)
  note a = C2_checkEligibility_thresholds [OF y7 k, of WHOLESALE]
  note b = C2_checkEligibility_thresholds [OF y7' k', of WHOLESALE]
  note c = C2_checkEligibility_thresholds [OF y3' k', of WHOLESALE]
  note d = C2_checkEligibility_thresholds [OF y3 k, of WHOLESALE]
  note e = C2_checkEligibility_thresholds [OF y12 k, of WHOLESALE]
  have A: "AnalysisView_checkEligibility 2026 (Some sampleCase) HCUV = \<lparr>ok = False, reason = Some ''Age > 6yr''\<rparr> \<and>
   InspectionForm_checkEligibility 2026 (vehicle sampleCase) Program_HCUV = \<lparr>ok = False, reason = Some ''Age > 6yrs''\<rparr> \<and>
   AnalysisView_checkEligibility 2026 (Some sampleCase) HAPO = \<lparr>ok = True, reason = None\<rparr> \<and>
   AnalysisView_checkEligibility 2026 (Some sampleCase) WHOLESALE = \<lparr>ok = True, reason = None\<rparr>"
    using a by simp
  have B: "AnalysisView_checkEligibility 2026 (Some ?c) HCUV = \<lparr>ok = False, reason = Some ''Age > 6yr''\<rparr> \<and>
   AnalysisView_checkEligibility 2026 (Some ?c) HAPO = \<lparr>ok = False, reason = Some ''KM > 200k''\<rparr>"
    using b by simp
  have C: "AnalysisView_checkEligibility 2022 (Some ?c) HCUV = \<lparr>ok = False, reason = Some ''KM > 120k''\<rparr>"
    using c by simp
  have D: "AnalysisView_checkEligibility 2022 (Some sampleCase) HCUV = \<lparr>ok = True, reason = None\<rparr>"
    using d by simp
  have E: "AnalysisView_checkEligibility 2031 (Some sampleCase) HAPO = \<lparr>ok = False, reason = Some ''Age > 10yr''\<rparr> \<and>
   InspectionForm_checkEligibility 2031 (vehicle sampleCase) Program_HAPO = \<lparr>ok = False, reason = Some ''Age > 10yrs''\<rparr>"
    using e by simp
  show ?thesis using y7 y3 y12 k y7' y3' k' A B C D E by simp
qed

text \<open>
  C9, as the code has it. The evaluator has no failure mode: it returns a verdict on
  every input. A comparison with \<open>NaN\<close> is false, so a \<open>NaN\<close> year switches the age
  checks off and a \<open>NaN\<close> odometer the odometer checks; when both are \<open>NaN\<close> every target
  is eligible.
\<close>

theorem C9_checkEligibility_total:
  "(year (vehicle c) = NaN \<and> kilometres (vehicle c) = NaN \<longrightarrow>
      AnalysisView_checkEligibility cy (Some c) s = \<lparr>ok = True, reason = None\<rparr> \<and>
      InspectionForm_checkEligibility cy (vehicle c) p = \<lparr>ok = True, reason = None\<rparr>) \<and>
   (year (vehicle c) = NaN \<longrightarrow>
      AnalysisView_checkEligibility cy (Some c) s =
        (if s = HCUV \<and> js_gt (kilometres (vehicle c)) 120000 then \<lparr>ok = False, reason = Some ''KM > 120k''\<rparr>
         else if s = HAPO \<and> js_gt (kilometres (vehicle c)) 200000 then \<lparr>ok = False, reason = Some ''KM > 200k''\<rparr>
         else \<lparr>ok = True, reason = None\<rparr>) \<and>
      InspectionForm_checkEligibility cy (vehicle c) p =
        (if p = Program_HCUV \<and> js_gt (kilometres (vehicle c)) 120000 then \<lparr>ok = False, reason = Some ''KM > 120k''\<rparr>
         else if p = Program_HAPO \<and> js_gt (kilometres (vehicle c)) 200000 then \<lparr>ok = False, reason = Some ''KM > 200k''\<rparr>
         else \<lparr>ok = True, reason = None\<rparr>)) \<and>
   (kilometres (vehicle c) = NaN \<longrightarrow>
      AnalysisView_checkEligibility cy (Some c) s =
        (if s = HCUV \<and> js_gt (js_sub (Num (of_int cy)) (year (vehicle c))) 6 then \<lparr>ok = False, reason = Some ''Age > 6yr''\<rparr>
         else if s = HAPO \<and> js_gt (js_sub (Num (of_int cy)) (year (vehicle c))) 10 then \<lparr>ok = False, reason = Some ''Age > 10yr''\<rparr>
         else \<lparr>ok = True, reason = None\<rparr>) \<and>
      InspectionForm_checkEligibility cy (vehicle c) p =
        (if p = Program_HCUV \<and> js_gt (js_sub (Num (of_int cy)) (year (vehicle c))) 6 then \<lparr>ok = False, reason = Some ''Age > 6yrs''\<rparr>
         else if p = Program_HAPO \<and> js_gt (js_sub (Num (of_int cy)) (year (vehicle c))) 10 then \<lparr>ok = False, reason = Some ''Age > 10yrs''\<rparr>
         else \<lparr>ok = True, reason = None\<rparr>))"
  by (simp add: AnalysisView_checkEligibility_def InspectionForm_checkEligibility_def Let_def)

theorem C9_checkEligibility_total_witness:
  "year (vehicle (sampleCase\<lparr>vehicle := sampleVehicle\<lparr>year := NaN, kilometres := NaN\<rparr>\<rparr>)) = NaN \<and>
   kilometres (vehicle (sampleCase\<lparr>vehicle := sampleVehicle\<lparr>year := NaN, kilometres := NaN\<rparr>\<rparr>)) = NaN \<and>
   AnalysisView_checkEligibility 2026
       (Some (sampleCase\<lparr>vehicle := sampleVehicle\<lparr>year := NaN, kilometres := NaN\<rparr>\<rparr>)) HAPO
     = \<lparr>ok = True, reason = None\<rparr> \<and>
   kilometres (vehicle (sampleCase\<lparr>vehicle := sampleVehicle\<lparr>kilometres := NaN\<rparr>\<rparr>)) = NaN \<and>
   AnalysisView_checkEligibility 2026 (Some (sampleCase\<lparr>vehicle := sampleVehicle\<lparr>kilometres := NaN\<rparr>\<rparr>)) HCUV
     = \<lparr>ok = False, reason = Some ''Age > 6yr''\<rparr> \<and>
   year (vehicle (sampleCase\<lparr>vehicle := sampleVehicle\<lparr>year := NaN, kilometres := Num 130000\<rparr>\<rparr>)) = NaN \<and>
   InspectionForm_checkEligibility 2026
       (vehicle (sampleCase\<lparr>vehicle := sampleVehicle\<lparr>year := NaN, kilometres := Num 130000\<rparr>\<rparr>)) Program_HCUV
     = \<lparr>ok = False, reason = Some ''KM > 120k''\<rparr>"
  using C9_checkEligibility_total
          [of "sampleCase\<lparr>vehicle := sampleVehicle\<lparr>year := NaN, kilometres := NaN\<rparr>\<rparr>" 2026 HAPO Program_HAPO]
        C9_checkEligibility_total
          [of "sampleCase\<lparr>vehicle := sampleVehicle\<lparr>kilometres := NaN\<rparr>\<rparr>" 2026 HCUV Program_HCUV]
        C9_checkEligibility_total
          [of "sampleCase\<lparr>vehicle := sampleVehicle\<lparr>year := NaN, kilometres := Num 130000\<rparr>\<rparr>" 2026 HCUV Program_HCUV]
  by (simp add: sampleCase_def sampleVehicle_def)

text \<open>
  C9, as stated, fails: with a \<open>NaN\<close> year and a \<open>NaN\<close> odometer nothing is rejected, and
  the top-tier target is reported eligible by both checks.
\<close>

theorem C9_counterexample:
  "AnalysisView_checkEligibility 2026
       (Some (sampleCase\<lparr>vehicle := sampleVehicle\<lparr>year := NaN, kilometres := NaN\<rparr>\<rparr>)) HCUV
     = \<lparr>ok = True, reason = None\<rparr> \<and>
   InspectionForm_checkEligibility 2026 (sampleVehicle\<lparr>year := NaN, kilometres := NaN\<rparr>) Program_HCUV
     = \<lparr>ok = True, reason = None\<rparr>"
  by (simp add: AnalysisView_checkEligibility_def InspectionForm_checkEligibility_def
        sampleCase_def sampleVehicle_def)

section \<open>Classification of a move\<close>

text \<open>
  C4. The ranks are ordered top-tier, mid-tier, generic certified, as-is retail,
  wholesale. Between two distinct statuses the move is an upgrade exactly when the
  requested status has the higher rank, a downgrade exactly when it has the lower
  rank, and never lateral; top-tier to wholesale is a downgrade and wholesale to
  top-tier an upgrade. The entry appended by an accepted transition carries the
  classification of the move from the current status to the requested one.
\<close>

theorem C4_determineMoveType_rank:
  "hierarchy HCUV > hierarchy HAPO \<and> hierarchy HAPO > hierarchy CERTIFIED \<and>
   hierarchy CERTIFIED > hierarchy AS_IS_RETAIL \<and> hierarchy AS_IS_RETAIL > hierarchy WHOLESALE \<and>
   (from \<noteq> to \<longrightarrow>
      (determineMoveType from to = Upgrade \<longleftrightarrow> hierarchy to > hierarchy from) \<and>
      (determineMoveType from to = Downgrade \<longleftrightarrow> hierarchy to < hierarchy from) \<and>
      determineMoveType from to \<noteq> Lateral) \<and>
   determineMoveType HCUV WHOLESALE = Downgrade \<and>
   determineMoveType WHOLESALE HCUV = Upgrade \<and>
   (handleStatusChange cy now fails w (Some c) to = (Transitioned c', w') \<longrightarrow>
      to \<noteq> currentStatus c \<and>
      statusHistory c' = statusHistory c @
        [\<lparr>entry_from = currentStatus c, entry_to = to, entry_timestamp = now,
          entry_type = determineMoveType (currentStatus c) to\<rparr>])"
proof -
  have inj: "from \<noteq> to \<Longrightarrow> hierarchy from \<noteq> hierarchy to"
    by (cases "from"; cases to) simp_all
  have cls: "from \<noteq> to \<longrightarrow>
      (determineMoveType from to = Upgrade \<longleftrightarrow> hierarchy to > hierarchy from) \<and>
      (determineMoveType from to = Downgrade \<longleftrightarrow> hierarchy to < hierarchy from) \<and>
      determineMoveType from to \<noteq> Lateral"
    using inj by (auto simp: determineMoveType_def Let_def)
  have ex: "determineMoveType HCUV WHOLESALE = Downgrade \<and> determineMoveType WHOLESALE HCUV = Upgrade"
    by (simp add: determineMoveType_def)
  have tr: "handleStatusChange cy now fails w (Some c) to = (Transitioned c', w') \<longrightarrow>
      to \<noteq> currentStatus c \<and>
      statusHistory c' = statusHistory c @
        [\<lparr>entry_from = currentStatus c, entry_to = to, entry_timestamp = now,
          entry_type = determineMoveType (currentStatus c) to\<rparr>]"
    by (auto simp: handleStatusChange_def Let_def split: if_splits sum.splits)
  show ?thesis using cls ex tr by simp
qed

theorem C4_determineMoveType_rank_witness:
  "HCUV \<noteq> CERTIFIED \<and> determineMoveType HCUV CERTIFIED = Downgrade \<and>
   handleStatusChange 2026 5 False localWorld (Some (sampleCase\<lparr>currentStatus := WHOLESALE\<rparr>)) CERTIFIED
     = (Transitioned (sampleCase\<lparr>currentStatus := CERTIFIED, statusHistory :=
          [\<lparr>entry_from = WHOLESALE, entry_to = CERTIFIED, entry_timestamp = 5, entry_type = Upgrade\<rparr>]\<rparr>),
        localWorld\<lparr>localStorage := emptyLocalStorage\<lparr>ls_cases :=
          [sampleCase\<lparr>currentStatus := CERTIFIED, statusHistory :=
          [\<lparr>entry_from = WHOLESALE, entry_to = CERTIFIED, entry_timestamp = 5, entry_type = Upgrade\<rparr>]\<rparr>]\<rparr>\<rparr>)"
proof -
  have h: "handleStatusChange 2026 5 False localWorld (Some (sampleCase\<lparr>currentStatus := WHOLESALE\<rparr>)) CERTIFIED
     = (Transitioned (sampleCase\<lparr>currentStatus := CERTIFIED, statusHistory :=
          [\<lparr>entry_from = WHOLESALE, entry_to = CERTIFIED, entry_timestamp = 5, entry_type = Upgrade\<rparr>]\<rparr>),
        localWorld\<lparr>localStorage := emptyLocalStorage\<lparr>ls_cases :=
          [sampleCase\<lparr>currentStatus := CERTIFIED, statusHistory :=
          [\<lparr>entry_from = WHOLESALE, entry_to = CERTIFIED, entry_timestamp = 5, entry_type = Upgrade\<rparr>]\<rparr>]\<rparr>\<rparr>)"
    by (simp add: handleStatusChange_def AnalysisView_checkEligibility_def Let_def saveCase_def
          setLocal_def localWorld_def emptyLocalStorage_def sampleCase_def determineMoveType_def)
  show ?thesis
    using h C4_determineMoveType_rank [of HCUV CERTIFIED 2026 5 False localWorld
            "sampleCase\<lparr>currentStatus := WHOLESALE\<rparr>"]
    by simp
qed

section \<open>Adjustment of the selected program at intake\<close>

lemma hapo_ineligible_hcuv_ineligible:
  "\<not> ok (InspectionForm_checkEligibility cy v Program_HAPO) \<Longrightarrow>
   \<not> ok (InspectionForm_checkEligibility cy v Program_HCUV)"
  using js_gt_mono [of "js_sub (Num (of_int cy)) (year v)" 10 6]
        js_gt_mono [of "kilometres v" 200000 120000]
  by (auto simp: InspectionForm_checkEligibility_def Let_def split: if_splits)

lemma certified_eligible:
  "ok (InspectionForm_checkEligibility cy v Program_CERTIFIED)"
  by (simp add: InspectionForm_checkEligibility_def Let_def)

text \<open>
  C5. When the year or the odometer changes, an eligible selection is left as it is; an
  ineligible top-tier selection becomes mid-tier when mid-tier is eligible and generic
  certified otherwise; an ineligible mid-tier selection becomes generic certified. The
  replacement is the first eligible program in the order top-tier, mid-tier, generic
  certified.
\<close>

theorem C5_autoAdjustProgram_fallback:
  "(ok (InspectionForm_checkEligibility cy v (program d)) \<longrightarrow> autoAdjustProgram cy v d = d) \<and>
   (program d = Program_HCUV \<and> \<not> ok (InspectionForm_checkEligibility cy v Program_HCUV) \<longrightarrow>
      autoAdjustProgram cy v d =
        d\<lparr>program := (if ok (InspectionForm_checkEligibility cy v Program_HAPO)
                       then Program_HAPO else Program_CERTIFIED)\<rparr>) \<and>
   (program d = Program_HAPO \<and> \<not> ok (InspectionForm_checkEligibility cy v Program_HAPO) \<longrightarrow>
      autoAdjustProgram cy v d = d\<lparr>program := Program_CERTIFIED\<rparr>) \<and>
   (\<not> ok (InspectionForm_checkEligibility cy v (program d)) \<longrightarrow>
      find (\<lambda>p. ok (InspectionForm_checkEligibility cy v p))
           [Program_HCUV, Program_HAPO, Program_CERTIFIED]
        = Some (program (autoAdjustProgram cy v d)))"
proof -
  note ce = certified_eligible [of cy v]
  note hh = hapo_ineligible_hcuv_ineligible [of cy v]
  have 1: "ok (InspectionForm_checkEligibility cy v (program d)) \<longrightarrow> autoAdjustProgram cy v d = d"
    by (auto simp: autoAdjustProgram_def Let_def)
  have 2: "program d = Program_HCUV \<and> \<not> ok (InspectionForm_checkEligibility cy v Program_HCUV) \<longrightarrow>
      autoAdjustProgram cy v d =
        d\<lparr>program := (if ok (InspectionForm_checkEligibility cy v Program_HAPO)
                       then Program_HAPO else Program_CERTIFIED)\<rparr>"
    by (simp add: autoAdjustProgram_def Let_def)
  have 3: "program d = Program_HAPO \<and> \<not> ok (InspectionForm_checkEligibility cy v Program_HAPO) \<longrightarrow>
      autoAdjustProgram cy v d = d\<lparr>program := Program_CERTIFIED\<rparr>"
    by (simp add: autoAdjustProgram_def Let_def)
  have 4: "\<not> ok (InspectionForm_checkEligibility cy v (program d)) \<longrightarrow>
      find (\<lambda>p. ok (InspectionForm_checkEligibility cy v p))
           [Program_HCUV, Program_HAPO, Program_CERTIFIED]
        = Some (program (autoAdjustProgram cy v d))"
  proof (cases "program d")
    case Program_HCUV
    then show ?thesis using ce by (simp add: autoAdjustProgram_def Let_def)
  next
    case Program_HAPO
    then show ?thesis using ce hh by (auto simp: autoAdjustProgram_def Let_def)
  next
    case Program_CERTIFIED
    then show ?thesis using ce by simp
  qed
  show ?thesis using 1 2 3 4 by blast
qed

theorem C5_autoAdjustProgram_fallback_witness:
  "program sampleData = Program_HCUV \<and>
   \<not> ok (InspectionForm_checkEligibility 2026 sampleVehicle Program_HCUV) \<and>
   ok (InspectionForm_checkEligibility 2026 sampleVehicle Program_HAPO) \<and>
   autoAdjustProgram 2026 sampleVehicle sampleData = sampleData\<lparr>program := Program_HAPO\<rparr> \<and>
   ok (InspectionForm_checkEligibility 2020 sampleVehicle (program sampleData)) \<and>
   autoAdjustProgram 2020 sampleVehicle sampleData = sampleData \<and>
   \<not> ok (InspectionForm_checkEligibility 2031 sampleVehicle Program_HCUV) \<and>
   \<not> ok (InspectionForm_checkEligibility 2031 sampleVehicle Program_HAPO) \<and>
   autoAdjustProgram 2031 sampleVehicle sampleData = sampleData\<lparr>program := Program_CERTIFIED\<rparr> \<and>
   program (sampleData\<lparr>program := Program_HAPO\<rparr>) = Program_HAPO \<and>
   autoAdjustProgram 2031 sampleVehicle (sampleData\<lparr>program := Program_HAPO\<rparr>)
     = sampleData\<lparr>program := Program_CERTIFIED\<rparr> \<and>
   find (\<lambda>p. ok (InspectionForm_checkEligibility 2031 sampleVehicle p))
        [Program_HCUV, Program_HAPO, Program_CERTIFIED] = Some Program_CERTIFIED"
proof -
  have a: "program sampleData = Program_HCUV" by (simp add: sampleData_def)
  have b: "\<not> ok (InspectionForm_checkEligibility 2026 sampleVehicle Program_HCUV)"
    by (simp add: InspectionForm_checkEligibility_def sampleVehicle_def)
  have c: "ok (InspectionForm_checkEligibility 2026 sampleVehicle Program_HAPO)"
    by (simp add: InspectionForm_checkEligibility_def sampleVehicle_def)
  have d: "ok (InspectionForm_checkEligibility 2020 sampleVehicle (program sampleData))"
    by (simp add: InspectionForm_checkEligibility_def sampleVehicle_def sampleData_def)
  have e: "\<not> ok (InspectionForm_checkEligibility 2031 sampleVehicle Program_HCUV)"
    by (simp add: InspectionForm_checkEligibility_def sampleVehicle_def)
  have f: "\<not> ok (InspectionForm_checkEligibility 2031 sampleVehicle Program_HAPO)"
    by (simp add: InspectionForm_checkEligibility_def sampleVehicle_def)
  have 1: "autoAdjustProgram 2026 sampleVehicle sampleData = sampleData\<lparr>program := Program_HAPO\<rparr>"
    using a b c C5_autoAdjustProgram_fallback [of 2026 sampleVehicle sampleData] by simp
  have 2: "autoAdjustProgram 2020 sampleVehicle sampleData = sampleData"
    using d C5_autoAdjustProgram_fallback [of 2020 sampleVehicle sampleData] by simp
  have 3: "autoAdjustProgram 2031 sampleVehicle sampleData = sampleData\<lparr>program := Program_CERTIFIED\<rparr>"
    using a e f C5_autoAdjustProgram_fallback [of 2031 sampleVehicle sampleData] by simp
  have 4: "autoAdjustProgram 2031 sampleVehicle (sampleData\<lparr>program := Program_HAPO\<rparr>)
     = sampleData\<lparr>program := Program_CERTIFIED\<rparr>"
    using f C5_autoAdjustProgram_fallback [of 2031 sampleVehicle "sampleData\<lparr>program := Program_HAPO\<rparr>"]
    by simp
  have 5: "find (\<lambda>p. ok (InspectionForm_checkEligibility 2031 sampleVehicle p))
        [Program_HCUV, Program_HAPO, Program_CERTIFIED] = Some Program_CERTIFIED"
    using a e 3 C5_autoAdjustProgram_fallback [of 2031 sampleVehicle sampleData] by simp
  show ?thesis using a b c d e f 1 2 3 4 5 by simp
qed

section \<open>Requests for an ineligible status\<close>

text \<open>
  C3, as the code has it. A request for a status that is ineligible for the vehicle
  leaves the case and the store as they were, and nothing is saved. When the requested
  status differs from the current one the request is rejected with the eligibility
  reason; when it is the current status the request is ignored without a message.
\<close>

theorem C3_ineligible_unmodified:
  assumes "\<not> ok (AnalysisView_checkEligibility cy (Some c) s)"
  shows "snd (handleStatusChange cy now fails w (Some c) s) = w \<and>
         requestStatusChange (c, w) \<lparr>req_status = s, req_currentYear = cy, req_now = now, req_fails = fails\<rparr> = (c, w) \<and>
         (s = currentStatus c \<longrightarrow> fst (handleStatusChange cy now fails w (Some c) s) = Ignored) \<and>
         (s \<noteq> currentStatus c \<longrightarrow>
            (\<exists>r. reason (AnalysisView_checkEligibility cy (Some c) s) = Some r \<and>
                 fst (handleStatusChange cy now fails w (Some c) s) =
                   Rejected (''Vehicle ineligible for '' @ PostReviewStatus_value s @ '': '' @ r)))"
proof -
  have r: "\<exists>r. reason (AnalysisView_checkEligibility cy (Some c) s) = Some r"
    using assms by (auto simp: AnalysisView_checkEligibility_def Let_def split: if_splits)
  then obtain r where r: "reason (AnalysisView_checkEligibility cy (Some c) s) = Some r" ..
  have h: "handleStatusChange cy now fails w (Some c) s =
      (if s = currentStatus c then Ignored
       else Rejected (''Vehicle ineligible for '' @ PostReviewStatus_value s @ '': '' @ r), w)"
    using assms r by (simp add: handleStatusChange_def Let_def)
  show ?thesis using r h by (auto simp: requestStatusChange_def)
qed

theorem C3_ineligible_unmodified_witness:
  "\<not> ok (AnalysisView_checkEligibility 2026 (Some (sampleCase\<lparr>currentStatus := CERTIFIED\<rparr>)) HCUV) \<and>
   HCUV \<noteq> currentStatus (sampleCase\<lparr>currentStatus := CERTIFIED\<rparr>) \<and>
   handleStatusChange 2026 5 False localWorld (Some (sampleCase\<lparr>currentStatus := CERTIFIED\<rparr>)) HCUV
     = (Rejected ''Vehicle ineligible for HCUV: Age > 6yr'', localWorld) \<and>
   \<not> ok (AnalysisView_checkEligibility 2026 (Some sampleCase) HCUV) \<and>
   HCUV = currentStatus sampleCase \<and>
   handleStatusChange 2026 5 False localWorld (Some sampleCase) HCUV = (Ignored, localWorld)"
proof -
  have a: "\<not> ok (AnalysisView_checkEligibility 2026 (Some (sampleCase\<lparr>currentStatus := CERTIFIED\<rparr>)) HCUV)"
    by (simp add: AnalysisView_checkEligibility_def sampleCase_def sampleVehicle_def)
  have b: "reason (AnalysisView_checkEligibility 2026 (Some (sampleCase\<lparr>currentStatus := CERTIFIED\<rparr>)) HCUV)
            = Some ''Age > 6yr''"
    by (simp add: AnalysisView_checkEligibility_def sampleCase_def sampleVehicle_def)
  have c: "HCUV \<noteq> currentStatus (sampleCase\<lparr>currentStatus := CERTIFIED\<rparr>)" by simp
  have d: "\<not> ok (AnalysisView_checkEligibility 2026 (Some sampleCase) HCUV)"
    by (simp add: AnalysisView_checkEligibility_def sampleCase_def sampleVehicle_def)
  have e: "HCUV = currentStatus sampleCase" by (simp add: sampleCase_def)
  have 1: "handleStatusChange 2026 5 False localWorld (Some (sampleCase\<lparr>currentStatus := CERTIFIED\<rparr>)) HCUV
     = (Rejected ''Vehicle ineligible for HCUV: Age > 6yr'', localWorld)"
    using b c C3_ineligible_unmodified [OF a, of 5 False localWorld]
    by (auto simp: prod_eq_iff)
  have 2: "handleStatusChange 2026 5 False localWorld (Some sampleCase) HCUV = (Ignored, localWorld)"
    using e C3_ineligible_unmodified [OF d, of 5 False localWorld]
    by (auto simp: prod_eq_iff)
  show ?thesis by (intro conjI a c 1 d e 2)
qed

text \<open>
  C3, as stated, fails where the requested status is the current one: the top-tier
  status of a seven-year-old vehicle is ineligible, and a request for it is ignored,
  not rejected.
\<close>

theorem C3_counterexample:
  "\<not> ok (AnalysisView_checkEligibility 2026 (Some sampleCase) HCUV) \<and>
   handleStatusChange 2026 5 False localWorld (Some sampleCase) HCUV = (Ignored, localWorld)"
  by (simp add: AnalysisView_checkEligibility_def handleStatusChange_def sampleCase_def
        sampleVehicle_def)

section \<open>Append-only status history\<close>

lemma saveCase_Inl:
  "supabase w \<noteq> None \<Longrightarrow> fails \<Longrightarrow> saveCase fails w c = Inl RequestFailed"
  by (auto simp: saveCase_def)

lemma saveCase_Inr:
  "\<not> (supabase w \<noteq> None \<and> fails) \<Longrightarrow> \<exists>w'. saveCase fails w c = Inr w'"
  by (cases "supabase w") (simp_all add: saveCase_def)

lemma handleStatusChange_not_accepted:
  assumes "\<not> accepted (c, w) r"
  shows "\<exists>out. handleStatusChange (req_currentYear r) (req_now r) (req_fails r) w (Some c) (req_status r)
            = (out, w) \<and> (\<forall>c'. out \<noteq> Transitioned c')"
proof (cases "req_status r = currentStatus c")
  case True
  then show ?thesis by (simp add: handleStatusChange_def)
next
  case ne: False
  show ?thesis
  proof (cases "ok (AnalysisView_checkEligibility (req_currentYear r) (Some c) (req_status r))")
    case False
    then show ?thesis using ne by (simp add: handleStatusChange_def Let_def)
  next
    case True
    with ne assms have "supabase w \<noteq> None" "req_fails r" by (auto simp: accepted_def)
    then show ?thesis using ne True
      by (simp add: handleStatusChange_def Let_def saveCase_Inl)
  qed
qed

lemma handleStatusChange_accepted:
  assumes "accepted (c, w) r"
  shows "\<exists>w'. handleStatusChange (req_currentYear r) (req_now r) (req_fails r) w (Some c) (req_status r)
            = (Transitioned (c\<lparr>currentStatus := req_status r,
                 statusHistory := statusHistory c @
                   [\<lparr>entry_from = currentStatus c, entry_to = req_status r,
                     entry_timestamp = req_now r,
                     entry_type = determineMoveType (currentStatus c) (req_status r)\<rparr>]\<rparr>), w')"
proof -
  from assms have ne: "req_status r \<noteq> currentStatus c"
    and el: "ok (AnalysisView_checkEligibility (req_currentYear r) (Some c) (req_status r))"
    and sv: "\<not> (supabase w \<noteq> None \<and> req_fails r)"
    by (auto simp: accepted_def)
  from saveCase_Inr [OF sv] obtain w' where
    "saveCase (req_fails r) w (c\<lparr>currentStatus := req_status r,
                 statusHistory := statusHistory c @
                   [\<lparr>entry_from = currentStatus c, entry_to = req_status r,
                     entry_timestamp = req_now r,
                     entry_type = determineMoveType (currentStatus c) (req_status r)\<rparr>]\<rparr>) = Inr w'"
    by blast
  then show ?thesis using ne el by (simp add: handleStatusChange_def Let_def)
qed

lemma requestStatusChange_not_accepted:
  "\<not> accepted st r \<Longrightarrow> requestStatusChange st r = st"
proof (cases st)
  case (Pair c w)
  assume "\<not> accepted st r"
  with Pair obtain out where
    "handleStatusChange (req_currentYear r) (req_now r) (req_fails r) w (Some c) (req_status r) = (out, w)"
    "\<forall>c'. out \<noteq> Transitioned c'"
    using handleStatusChange_not_accepted [of c w r] by auto
  then show ?thesis unfolding Pair by (cases out) (simp_all add: requestStatusChange_def)
qed

lemma requestStatusChange_accepted:
  "accepted st r \<Longrightarrow>
   fst (requestStatusChange st r) =
     (fst st)\<lparr>currentStatus := req_status r,
              statusHistory := statusHistory (fst st) @
                [\<lparr>entry_from = currentStatus (fst st), entry_to = req_status r,
                  entry_timestamp = req_now r,
                  entry_type = determineMoveType (currentStatus (fst st)) (req_status r)\<rparr>]\<rparr>"
proof (cases st)
  case (Pair c w)
  assume "accepted st r"
  with Pair handleStatusChange_accepted [of c w r] show ?thesis
    by (auto simp: requestStatusChange_def)
qed

lemma requestStatusChanges_history:
  "\<exists>new. statusHistory (fst (requestStatusChanges st rs)) = statusHistory (fst st) @ new \<and>
         map entry_to new = map req_status (acceptedRequests st rs) \<and>
         currentStatus (fst (requestStatusChanges st rs)) =
           (if new = [] then currentStatus (fst st) else entry_to (last new)) \<and>
         (new = [] \<longrightarrow> fst (requestStatusChanges st rs) = fst st)"
proof (induction rs arbitrary: st)
  case Nil
  then show ?case by (simp add: requestStatusChanges_def)
next
  case (Cons r rs)
  obtain new where new:
    "statusHistory (fst (requestStatusChanges (requestStatusChange st r) rs)) =
       statusHistory (fst (requestStatusChange st r)) @ new"
    "map entry_to new = map req_status (acceptedRequests (requestStatusChange st r) rs)"
    "currentStatus (fst (requestStatusChanges (requestStatusChange st r) rs)) =
       (if new = [] then currentStatus (fst (requestStatusChange st r)) else entry_to (last new))"
    "new = [] \<longrightarrow> fst (requestStatusChanges (requestStatusChange st r) rs) = fst (requestStatusChange st r)"
    using Cons.IH [of "requestStatusChange st r"] by (elim exE conjE)
  have step: "requestStatusChanges st (r # rs) = requestStatusChanges (requestStatusChange st r) rs"
    by (simp add: requestStatusChanges_def)
  show ?case
  proof (cases "accepted st r")
    case False
    then have same: "requestStatusChange st r = st" by (rule requestStatusChange_not_accepted)
    have acc: "acceptedRequests st (r # rs) = acceptedRequests st rs"
      using False same by simp
    show ?thesis unfolding step acc
      using new unfolding same by (intro exI [of _ new] conjI)
  next
    case True
    let ?e = "\<lparr>entry_from = currentStatus (fst st), entry_to = req_status r,
                  entry_timestamp = req_now r,
                  entry_type = determineMoveType (currentStatus (fst st)) (req_status r)\<rparr>"
    note a = requestStatusChange_accepted [OF True]
    have "statusHistory (fst (requestStatusChanges st (r # rs))) = statusHistory (fst st) @ (?e # new)"
      unfolding step new(1) a by simp
    moreover have "map entry_to (?e # new) = map req_status (acceptedRequests st (r # rs))"
      using True new(2) by simp
    moreover have "currentStatus (fst (requestStatusChanges st (r # rs))) = entry_to (last (?e # new))"
      unfolding step new(3) a by simp
    ultimately show ?thesis by (intro exI [of _ "?e # new"] conjI) simp_all
  qed
qed

text \<open>
  C1. After any sequence of status-change requests on a case, the history the case had
  is a prefix of its history, one entry was appended for each accepted request, in
  order and with the requested status as its \<open>to\<close>, and nothing else was appended. When
  no request was accepted the case is as it was, otherwise its current status is the
  \<open>to\<close> of the last entry; so a case that starts with an empty history, as a new case
  does, or with a history that ends in its current status, has as current status the
  \<open>to\<close> of the last entry, or its initial status when the history is empty. A
  request for the current status or for an ineligible status changes nothing.
\<close>

theorem C1_status_history_append_only:
  "take (length (statusHistory c)) (statusHistory (fst (requestStatusChanges (c, w) rs)))
     = statusHistory c \<and>
   length (statusHistory (fst (requestStatusChanges (c, w) rs)))
     = length (statusHistory c) + length (acceptedRequests (c, w) rs) \<and>
   map entry_to (drop (length (statusHistory c)) (statusHistory (fst (requestStatusChanges (c, w) rs))))
     = map req_status (acceptedRequests (c, w) rs) \<and>
   (acceptedRequests (c, w) rs = [] \<longrightarrow> fst (requestStatusChanges (c, w) rs) = c) \<and>
   (acceptedRequests (c, w) rs \<noteq> [] \<longrightarrow>
      currentStatus (fst (requestStatusChanges (c, w) rs))
        = entry_to (last (statusHistory (fst (requestStatusChanges (c, w) rs))))) \<and>
   ((statusHistory c \<noteq> [] \<longrightarrow> entry_to (last (statusHistory c)) = currentStatus c) \<longrightarrow>
      currentStatus (fst (requestStatusChanges (c, w) rs))
        = (if statusHistory (fst (requestStatusChanges (c, w) rs)) = [] then currentStatus c
           else entry_to (last (statusHistory (fst (requestStatusChanges (c, w) rs)))))) \<and>
   (req_status r = currentStatus c \<or>
    \<not> ok (AnalysisView_checkEligibility (req_currentYear r) (Some c) (req_status r)) \<longrightarrow>
      requestStatusChange (c, w) r = (c, w))"
proof -
  obtain new where new:
    "statusHistory (fst (requestStatusChanges (c, w) rs)) = statusHistory c @ new"
    "map entry_to new = map req_status (acceptedRequests (c, w) rs)"
    "currentStatus (fst (requestStatusChanges (c, w) rs)) =
       (if new = [] then currentStatus c else entry_to (last new))"
    "new = [] \<longrightarrow> fst (requestStatusChanges (c, w) rs) = c"
    using requestStatusChanges_history [of "(c, w)" rs] unfolding fst_conv by (elim exE conjE)
  have len: "length new = length (acceptedRequests (c, w) rs)"
    using new(2) by (metis length_map)
  have empty: "new = [] \<longleftrightarrow> acceptedRequests (c, w) rs = []"
    using len by (metis length_0_conv)
  have 1: "take (length (statusHistory c)) (statusHistory (fst (requestStatusChanges (c, w) rs)))
     = statusHistory c" unfolding new(1) by simp
  have 2: "length (statusHistory (fst (requestStatusChanges (c, w) rs)))
     = length (statusHistory c) + length (acceptedRequests (c, w) rs)"
    unfolding new(1) using len by simp
  have 3: "map entry_to (drop (length (statusHistory c)) (statusHistory (fst (requestStatusChanges (c, w) rs))))
     = map req_status (acceptedRequests (c, w) rs)"
    unfolding new(1) using new(2) by simp
  have 4: "acceptedRequests (c, w) rs = [] \<longrightarrow> fst (requestStatusChanges (c, w) rs) = c"
    using new(4) empty by simp
  have 5: "acceptedRequests (c, w) rs \<noteq> [] \<longrightarrow>
      currentStatus (fst (requestStatusChanges (c, w) rs))
        = entry_to (last (statusHistory (fst (requestStatusChanges (c, w) rs))))"
    unfolding new(1) new(3) using empty by simp
  have 6: "(statusHistory c \<noteq> [] \<longrightarrow> entry_to (last (statusHistory c)) = currentStatus c) \<longrightarrow>
      currentStatus (fst (requestStatusChanges (c, w) rs))
        = (if statusHistory (fst (requestStatusChanges (c, w) rs)) = [] then currentStatus c
           else entry_to (last (statusHistory (fst (requestStatusChanges (c, w) rs)))))"
    unfolding new(1) new(3) by simp
  have 7: "req_status r = currentStatus c \<or>
    \<not> ok (AnalysisView_checkEligibility (req_currentYear r) (Some c) (req_status r)) \<longrightarrow>
      requestStatusChange (c, w) r = (c, w)"
    using requestStatusChange_not_accepted [of "(c, w)" r] by (auto simp: accepted_def)
  show ?thesis by (intro conjI 1 2 3 4 5 6 7)
qed

theorem C1_status_history_append_only_witness:
  "statusHistory sampleCase = [] \<and>
   map req_status (acceptedRequests (sampleCase, localWorld)
     [\<lparr>req_status = WHOLESALE, req_currentYear = 2025, req_now = 10, req_fails = False\<rparr>,
      \<lparr>req_status = WHOLESALE, req_currentYear = 2025, req_now = 20, req_fails = False\<rparr>,
      \<lparr>req_status = HCUV, req_currentYear = 2026, req_now = 30, req_fails = False\<rparr>,
      \<lparr>req_status = CERTIFIED, req_currentYear = 2026, req_now = 40, req_fails = False\<rparr>])
     = [WHOLESALE, CERTIFIED] \<and>
   map entry_to (statusHistory (fst (requestStatusChanges (sampleCase, localWorld)
     [\<lparr>req_status = WHOLESALE, req_currentYear = 2025, req_now = 10, req_fails = False\<rparr>,
      \<lparr>req_status = WHOLESALE, req_currentYear = 2025, req_now = 20, req_fails = False\<rparr>,
      \<lparr>req_status = HCUV, req_currentYear = 2026, req_now = 30, req_fails = False\<rparr>,
      \<lparr>req_status = CERTIFIED, req_currentYear = 2026, req_now = 40, req_fails = False\<rparr>])))
     = [WHOLESALE, CERTIFIED] \<and>
   currentStatus (fst (requestStatusChanges (sampleCase, localWorld)
     [\<lparr>req_status = WHOLESALE, req_currentYear = 2025, req_now = 10, req_fails = False\<rparr>,
      \<lparr>req_status = WHOLESALE, req_currentYear = 2025, req_now = 20, req_fails = False\<rparr>,
      \<lparr>req_status = HCUV, req_currentYear = 2026, req_now = 30, req_fails = False\<rparr>,
      \<lparr>req_status = CERTIFIED, req_currentYear = 2026, req_now = 40, req_fails = False\<rparr>]))
     = CERTIFIED \<and>
   \<not> ok (AnalysisView_checkEligibility 2026 (Some sampleCase) HCUV) \<and>
   requestStatusChange (sampleCase, localWorld)
     \<lparr>req_status = HCUV, req_currentYear = 2026, req_now = 30, req_fails = False\<rparr>
     = (sampleCase, localWorld) \<and>
   acceptedRequests (sampleCase, remoteWorld)
     [\<lparr>req_status = HCUV, req_currentYear = 2025, req_now = 30, req_fails = False\<rparr>,
      \<lparr>req_status = WHOLESALE, req_currentYear = 2025, req_now = 40, req_fails = True\<rparr>] = [] \<and>
   fst (requestStatusChanges (sampleCase, remoteWorld)
     [\<lparr>req_status = HCUV, req_currentYear = 2025, req_now = 30, req_fails = False\<rparr>,
      \<lparr>req_status = WHOLESALE, req_currentYear = 2025, req_now = 40, req_fails = True\<rparr>]) = sampleCase"
proof -
  let ?rs = "[\<lparr>req_status = WHOLESALE, req_currentYear = 2025, req_now = 10, req_fails = False\<rparr>,
      \<lparr>req_status = WHOLESALE, req_currentYear = 2025, req_now = 20, req_fails = False\<rparr>,
      \<lparr>req_status = HCUV, req_currentYear = 2026, req_now = 30, req_fails = False\<rparr>,
      \<lparr>req_status = CERTIFIED, req_currentYear = 2026, req_now = 40, req_fails = False\<rparr>]"
  let ?r = "\<lparr>req_status = HCUV, req_currentYear = 2026, req_now = 30, req_fails = False\<rparr>"
  let ?qs = "[\<lparr>req_status = HCUV, req_currentYear = 2025, req_now = 30, req_fails = False\<rparr>,
      \<lparr>req_status = WHOLESALE, req_currentYear = 2025, req_now = 40, req_fails = True\<rparr>]"
  let ?c' = "fst (requestStatusChanges (sampleCase, localWorld) ?rs)"
  have h: "statusHistory sampleCase = []" by (simp add: sampleCase_def)
  have acc: "map req_status (acceptedRequests (sampleCase, localWorld) ?rs) = [WHOLESALE, CERTIFIED]"
    by (simp add: accepted_def requestStatusChange_def handleStatusChange_def
          AnalysisView_checkEligibility_def saveCase_def setLocal_def localWorld_def
          emptyLocalStorage_def sampleCase_def sampleVehicle_def determineMoveType_def Let_def)
  have ne: "acceptedRequests (sampleCase, localWorld) ?rs \<noteq> []"
  proof
    assume e: "acceptedRequests (sampleCase, localWorld) ?rs = []"
    show False using acc unfolding e by simp
  qed
  note c1 = C1_status_history_append_only [of sampleCase localWorld ?rs ?r]
  have m: "map entry_to (statusHistory ?c') = [WHOLESALE, CERTIFIED]"
    using c1 [THEN conjunct2, THEN conjunct2, THEN conjunct1] unfolding h acc by simp
  have hne: "statusHistory ?c' \<noteq> []"
  proof
    assume e: "statusHistory ?c' = []"
    show False using m unfolding e by simp
  qed
  have "entry_to (last (statusHistory ?c')) = last (map entry_to (statusHistory ?c'))"
    using hne by (simp add: last_map)
  then have l: "entry_to (last (statusHistory ?c')) = CERTIFIED" unfolding m by simp
  have "currentStatus ?c' = entry_to (last (statusHistory ?c'))"
    using c1 [THEN conjunct2, THEN conjunct2, THEN conjunct2, THEN conjunct2, THEN conjunct1] ne
    by simp
  then have cur: "currentStatus ?c' = CERTIFIED" using l by simp
  have inel: "\<not> ok (AnalysisView_checkEligibility 2026 (Some sampleCase) HCUV)"
    by (simp add: AnalysisView_checkEligibility_def sampleCase_def sampleVehicle_def)
  have same: "requestStatusChange (sampleCase, localWorld) ?r = (sampleCase, localWorld)"
    using c1 [THEN conjunct2, THEN conjunct2, THEN conjunct2, THEN conjunct2, THEN conjunct2,
              THEN conjunct2] inel by simp
  have none: "acceptedRequests (sampleCase, remoteWorld) ?qs = []"
    by (simp add: accepted_def requestStatusChange_def handleStatusChange_def
          AnalysisView_checkEligibility_def saveCase_def remoteWorld_def
          sampleCase_def sampleVehicle_def Let_def)
  have unch: "fst (requestStatusChanges (sampleCase, remoteWorld) ?qs) = sampleCase"
    using C1_status_history_append_only [of sampleCase remoteWorld ?qs ?r,
            THEN conjunct2, THEN conjunct2, THEN conjunct2, THEN conjunct1] none by simp
  show ?thesis by (intro conjI h acc m cur inel same none unch)
qed

section \<open>Order of the case list\<close>

lemma newestFirst_sorted_wrt:
  "newestFirst cs = sorted_wrt (\<lambda>a b. timestamp a \<ge> timestamp b) cs"
proof (induction cs rule: newestFirst.induct)
  case 1
  show ?case by simp
next
  case (2 c)
  show ?case by simp
next
  case (3 c d cs)
  have "sorted_wrt (\<lambda>a b. timestamp a \<ge> timestamp b) (c # d # cs) =
        (timestamp c \<ge> timestamp d \<and> sorted_wrt (\<lambda>a b. timestamp a \<ge> timestamp b) (d # cs))"
    by (auto intro: order_trans)
  then show ?case using "3.IH" by simp
qed

lemma newestFirst_timestamps:
  "newestFirst cs = sorted (rev (map timestamp cs))"
  unfolding newestFirst_sorted_wrt
  by (simp add: sorted_wrt_rev sorted_wrt_map flip: rev_map)

lemma newestFirst_db_order_desc: "newestFirst (db_order_desc timestamp rows)"
  by (simp add: newestFirst_timestamps db_order_desc_def rev_map)

lemma set_db_order_desc: "set (db_order_desc col rows) = set rows"
  by (simp add: db_order_desc_def)

lemma length_db_order_desc: "length (db_order_desc col rows) = length rows"
  by (simp add: db_order_desc_def)

lemma replaceFirst_None: "replaceFirst p r xs = None \<longleftrightarrow> (\<forall>x \<in> set xs. \<not> p x)"
  by (induction xs) auto

lemma replaceFirst_map:
  "replaceFirst p r xs = Some ys \<Longrightarrow> (\<forall>x \<in> set xs. p x \<longrightarrow> f x = f r) \<Longrightarrow> map f ys = map f xs"
  by (induction xs arbitrary: ys) (auto split: if_splits)

lemma saveCase_local:
  "supabase w = None \<Longrightarrow>
   saveCase False w c =
     Inr (w\<lparr>localStorage := (localStorage w)\<lparr>ls_cases :=
            (case replaceFirst (\<lambda>d. case_id d = case_id c) c (ls_cases (localStorage w)) of
               Some cases \<Rightarrow> cases
             | None \<Rightarrow> c # ls_cases (localStorage w))\<rparr>\<rparr>)"
  by (simp add: saveCase_def setLocal_def)

lemma newestFirst_local_save:
  assumes "newestFirst cs"
      and "case_id c \<notin> case_id ` set cs \<longrightarrow> (\<forall>d \<in> set cs. timestamp d \<le> timestamp c)"
      and "\<forall>d \<in> set cs. case_id d = case_id c \<longrightarrow> timestamp d = timestamp c"
  shows "newestFirst (case replaceFirst (\<lambda>d. case_id d = case_id c) c cs of
                        Some cases \<Rightarrow> cases | None \<Rightarrow> c # cs)"
proof (cases "replaceFirst (\<lambda>d. case_id d = case_id c) c cs")
  case None
  then have "\<forall>d \<in> set cs. case_id d \<noteq> case_id c" by (simp add: replaceFirst_None)
  then have "\<forall>d \<in> set cs. timestamp d \<le> timestamp c" using assms(2) by force
  then show ?thesis using assms(1) None by (simp add: newestFirst_sorted_wrt)
next
  case (Some ys)
  have "map timestamp ys = map timestamp cs"
    using replaceFirst_map [OF Some, of timestamp] assms(3) by auto
  then show ?thesis using assms(1) Some by (simp add: newestFirst_timestamps)
qed

text \<open>
  C7, as the code has it. Under the remote store \<open>getAllCases\<close> returns the stored cases
  newest first when the read succeeds, and the empty list when it fails. Under the local
  store it returns the stored list as it stands, unsorted: \<open>saveCase\<close> puts a case with a
  new id in front and replaces a case with a known id where it stands, so the list stays
  newest first as long as a case with a new id is at least as new as every stored case
  and a replacement keeps the timestamp.
\<close>

theorem C7_getAllCases_order:
  "(supabase w = Some db \<longrightarrow>
      newestFirst (getAllCases fails w) \<and>
      set (getAllCases False w) = set (tbl_inspection_cases db) \<and>
      length (getAllCases False w) = length (tbl_inspection_cases db) \<and>
      getAllCases True w = []) \<and>
   (supabase w = None \<longrightarrow>
      getAllCases fails w = ls_cases (localStorage w) \<and>
      (newestFirst (ls_cases (localStorage w)) \<and>
       (case_id c \<notin> case_id ` set (ls_cases (localStorage w)) \<longrightarrow>
          (\<forall>d \<in> set (ls_cases (localStorage w)). timestamp d \<le> timestamp c)) \<and>
       (\<forall>d \<in> set (ls_cases (localStorage w)). case_id d = case_id c \<longrightarrow> timestamp d = timestamp c) \<and>
       saveCase False w c = Inr w' \<longrightarrow>
         newestFirst (getAllCases fails w')))"
proof -
  have remote: "supabase w = Some db \<longrightarrow>
      newestFirst (getAllCases fails w) \<and>
      set (getAllCases False w) = set (tbl_inspection_cases db) \<and>
      length (getAllCases False w) = length (tbl_inspection_cases db) \<and>
      getAllCases True w = []"
    by (simp add: getAllCases_def newestFirst_db_order_desc set_db_order_desc length_db_order_desc)
  have local1: "supabase w = None \<longrightarrow> getAllCases fails w = ls_cases (localStorage w)"
    by (simp add: getAllCases_def)
  have local2: "supabase w = None \<longrightarrow>
      (newestFirst (ls_cases (localStorage w)) \<and>
       (case_id c \<notin> case_id ` set (ls_cases (localStorage w)) \<longrightarrow>
          (\<forall>d \<in> set (ls_cases (localStorage w)). timestamp d \<le> timestamp c)) \<and>
       (\<forall>d \<in> set (ls_cases (localStorage w)). case_id d = case_id c \<longrightarrow> timestamp d = timestamp c) \<and>
       saveCase False w c = Inr w' \<longrightarrow>
         newestFirst (getAllCases fails w'))"
  proof (intro impI, elim conjE)
    assume n: "supabase w = None"
      and s: "newestFirst (ls_cases (localStorage w))"
      and a: "case_id c \<notin> case_id ` set (ls_cases (localStorage w)) \<longrightarrow>
          (\<forall>d \<in> set (ls_cases (localStorage w)). timestamp d \<le> timestamp c)"
      and b: "\<forall>d \<in> set (ls_cases (localStorage w)). case_id d = case_id c \<longrightarrow> timestamp d = timestamp c"
      and sv: "saveCase False w c = Inr w'"
    have w': "w' = w\<lparr>localStorage := (localStorage w)\<lparr>ls_cases :=
            (case replaceFirst (\<lambda>d. case_id d = case_id c) c (ls_cases (localStorage w)) of
               Some cases \<Rightarrow> cases
             | None \<Rightarrow> c # ls_cases (localStorage w))\<rparr>\<rparr>"
      using sv unfolding saveCase_local [OF n] by simp
    show "newestFirst (getAllCases fails w')"
      unfolding w' using n newestFirst_local_save [OF s a b] by (simp add: getAllCases_def)
  qed
  show ?thesis using remote local1 local2 by (intro conjI impI) simp_all
qed

theorem C7_getAllCases_order_witness:
  "supabase (localWorld\<lparr>localStorage := emptyLocalStorage\<lparr>ls_cases := [sampleCase]\<rparr>\<rparr>) = None \<and>
   saveCase False (localWorld\<lparr>localStorage := emptyLocalStorage\<lparr>ls_cases := [sampleCase]\<rparr>\<rparr>)
       (sampleCase\<lparr>case_id := ''c2'', timestamp := 300\<rparr>)
     = Inr (localWorld\<lparr>localStorage := emptyLocalStorage\<lparr>ls_cases :=
              [sampleCase\<lparr>case_id := ''c2'', timestamp := 300\<rparr>, sampleCase]\<rparr>\<rparr>) \<and>
   newestFirst (getAllCases False (localWorld\<lparr>localStorage := emptyLocalStorage\<lparr>ls_cases :=
              [sampleCase\<lparr>case_id := ''c2'', timestamp := 300\<rparr>, sampleCase]\<rparr>\<rparr>)) \<and>
   saveCase False (localWorld\<lparr>localStorage := emptyLocalStorage\<lparr>ls_cases :=
              [sampleCase\<lparr>case_id := ''c2'', timestamp := 300\<rparr>, sampleCase]\<rparr>\<rparr>)
       (sampleCase\<lparr>currentStatus := WHOLESALE\<rparr>)
     = Inr (localWorld\<lparr>localStorage := emptyLocalStorage\<lparr>ls_cases :=
              [sampleCase\<lparr>case_id := ''c2'', timestamp := 300\<rparr>,
               sampleCase\<lparr>currentStatus := WHOLESALE\<rparr>]\<rparr>\<rparr>) \<and>
   newestFirst (getAllCases False (localWorld\<lparr>localStorage := emptyLocalStorage\<lparr>ls_cases :=
              [sampleCase\<lparr>case_id := ''c2'', timestamp := 300\<rparr>,
               sampleCase\<lparr>currentStatus := WHOLESALE\<rparr>]\<rparr>\<rparr>)) \<and>
   supabase (remoteWorld\<lparr>supabase := Some (emptySupabase\<lparr>tbl_inspection_cases :=
              [sampleCase, sampleCase\<lparr>case_id := ''c2'', timestamp := 300\<rparr>]\<rparr>)\<rparr>)
     = Some (emptySupabase\<lparr>tbl_inspection_cases :=
              [sampleCase, sampleCase\<lparr>case_id := ''c2'', timestamp := 300\<rparr>]\<rparr>) \<and>
   newestFirst (getAllCases False (remoteWorld\<lparr>supabase := Some (emptySupabase\<lparr>tbl_inspection_cases :=
              [sampleCase, sampleCase\<lparr>case_id := ''c2'', timestamp := 300\<rparr>]\<rparr>)\<rparr>))"
proof -
  let ?w = "localWorld\<lparr>localStorage := emptyLocalStorage\<lparr>ls_cases := [sampleCase]\<rparr>\<rparr>"
  let ?c = "sampleCase\<lparr>case_id := ''c2'', timestamp := 300\<rparr>"
  let ?u = "sampleCase\<lparr>currentStatus := WHOLESALE\<rparr>"
  let ?w' = "localWorld\<lparr>localStorage := emptyLocalStorage\<lparr>ls_cases := [?c, sampleCase]\<rparr>\<rparr>"
  let ?w'' = "localWorld\<lparr>localStorage := emptyLocalStorage\<lparr>ls_cases := [?c, ?u]\<rparr>\<rparr>"
  let ?db = "emptySupabase\<lparr>tbl_inspection_cases := [sampleCase, ?c]\<rparr>"
  let ?r = "remoteWorld\<lparr>supabase := Some ?db\<rparr>"
  have n: "supabase ?w = None" and n': "supabase ?w' = None" by (simp_all add: localWorld_def)
  have sv: "saveCase False ?w ?c = Inr ?w'"
    by (simp add: saveCase_def setLocal_def localWorld_def sampleCase_def)
  have sv': "saveCase False ?w' ?u = Inr ?w''"
    by (simp add: saveCase_def setLocal_def localWorld_def sampleCase_def)
  have s: "newestFirst (ls_cases (localStorage ?w))" by simp
  have a: "case_id ?c \<notin> case_id ` set (ls_cases (localStorage ?w)) \<longrightarrow>
          (\<forall>d \<in> set (ls_cases (localStorage ?w)). timestamp d \<le> timestamp ?c)"
    by (simp add: sampleCase_def)
  have b: "\<forall>d \<in> set (ls_cases (localStorage ?w)). case_id d = case_id ?c \<longrightarrow> timestamp d = timestamp ?c"
    by (simp add: sampleCase_def)
  have l: "newestFirst (getAllCases False ?w')"
    using C7_getAllCases_order [of ?w emptySupabase False ?c ?w', THEN conjunct2] n s a b sv
    by blast
  have s': "newestFirst (ls_cases (localStorage ?w'))" using l n' by (simp add: getAllCases_def)
  have a': "case_id ?u \<notin> case_id ` set (ls_cases (localStorage ?w')) \<longrightarrow>
          (\<forall>d \<in> set (ls_cases (localStorage ?w')). timestamp d \<le> timestamp ?u)"
    by (simp add: sampleCase_def)
  have b': "\<forall>d \<in> set (ls_cases (localStorage ?w')). case_id d = case_id ?u \<longrightarrow> timestamp d = timestamp ?u"
    by (simp add: sampleCase_def)
  have l': "newestFirst (getAllCases False ?w'')"
    using C7_getAllCases_order [of ?w' emptySupabase False ?u ?w'', THEN conjunct2] n' s' a' b' sv'
    by blast
  have rs: "supabase ?r = Some ?db" by simp
  have r: "newestFirst (getAllCases False ?r)"
    using C7_getAllCases_order [of ?r ?db False ?c ?w', THEN conjunct1] rs by blast
  show ?thesis by (intro conjI n sv l sv' l' rs r)
qed

text \<open>
  C7, as stated, fails under the local store: a case with an older timestamp that is
  saved after a newer one is returned in front of it.
\<close>

theorem C7_counterexample:
  "saveCase False (localWorld\<lparr>localStorage := emptyLocalStorage\<lparr>ls_cases := [sampleCase]\<rparr>\<rparr>)
       (sampleCase\<lparr>case_id := ''c2'', timestamp := 100\<rparr>)
     = Inr (localWorld\<lparr>localStorage := emptyLocalStorage\<lparr>ls_cases :=
              [sampleCase\<lparr>case_id := ''c2'', timestamp := 100\<rparr>, sampleCase]\<rparr>\<rparr>) \<and>
   map timestamp (getAllCases False (localWorld\<lparr>localStorage := emptyLocalStorage\<lparr>ls_cases :=
              [sampleCase\<lparr>case_id := ''c2'', timestamp := 100\<rparr>, sampleCase]\<rparr>\<rparr>)) = [100, 200] \<and>
   \<not> newestFirst (getAllCases False (localWorld\<lparr>localStorage := emptyLocalStorage\<lparr>ls_cases :=
              [sampleCase\<lparr>case_id := ''c2'', timestamp := 100\<rparr>, sampleCase]\<rparr>\<rparr>))"
  by (simp add: saveCase_def setLocal_def getAllCases_def localWorld_def sampleCase_def)

section \<open>Replaying the local store\<close>

text \<open>
  C6. \<open>syncLocalToCloud\<close> with three local appraisers, two of which are in the remote
  table under the same ids, and no failing request: the first \<open>saveAppraiser\<close> is an
  insert on a key that exists, so the sync reports failure with count 0 and the remote
  table keeps its two rows. From an empty remote table the same sync succeeds with
  count 3, and running it again fails with count 0.
\<close>

theorem C6_sync_existing_appraisers_fails:
  "syncLocalToCloud (\<lambda>n. False)
     \<lparr>supabase = Some (emptySupabase\<lparr>tbl_appraisers :=
         [\<lparr>appraiser_id = ''a1'', appraiser_name = ''Ann''\<rparr>,
          \<lparr>appraiser_id = ''a2'', appraiser_name = ''Bob''\<rparr>]\<rparr>),
      localStorage = emptyLocalStorage\<lparr>ls_appraisers :=
         [\<lparr>appraiser_id = ''a1'', appraiser_name = ''Ann''\<rparr>,
          \<lparr>appraiser_id = ''a2'', appraiser_name = ''Bob''\<rparr>,
          \<lparr>appraiser_id = ''a3'', appraiser_name = ''Cy''\<rparr>]\<rparr>\<rparr>
   = (\<lparr>success = False, count = 0\<rparr>,
      \<lparr>supabase = Some (emptySupabase\<lparr>tbl_appraisers :=
         [\<lparr>appraiser_id = ''a1'', appraiser_name = ''Ann''\<rparr>,
          \<lparr>appraiser_id = ''a2'', appraiser_name = ''Bob''\<rparr>]\<rparr>),
      localStorage = emptyLocalStorage\<lparr>ls_appraisers :=
         [\<lparr>appraiser_id = ''a1'', appraiser_name = ''Ann''\<rparr>,
          \<lparr>appraiser_id = ''a2'', appraiser_name = ''Bob''\<rparr>,
          \<lparr>appraiser_id = ''a3'', appraiser_name = ''Cy''\<rparr>]\<rparr>\<rparr>) \<and>
   syncLocalToCloud (\<lambda>n. False)
     \<lparr>supabase = Some emptySupabase,
      localStorage = emptyLocalStorage\<lparr>ls_appraisers :=
         [\<lparr>appraiser_id = ''a1'', appraiser_name = ''Ann''\<rparr>,
          \<lparr>appraiser_id = ''a2'', appraiser_name = ''Bob''\<rparr>,
          \<lparr>appraiser_id = ''a3'', appraiser_name = ''Cy''\<rparr>]\<rparr>\<rparr>
   = (\<lparr>success = True, count = 3\<rparr>,
      \<lparr>supabase = Some (emptySupabase\<lparr>tbl_appraisers :=
         [\<lparr>appraiser_id = ''a1'', appraiser_name = ''Ann''\<rparr>,
          \<lparr>appraiser_id = ''a2'', appraiser_name = ''Bob''\<rparr>,
          \<lparr>appraiser_id = ''a3'', appraiser_name = ''Cy''\<rparr>]\<rparr>),
      localStorage = emptyLocalStorage\<lparr>ls_appraisers :=
         [\<lparr>appraiser_id = ''a1'', appraiser_name = ''Ann''\<rparr>,
          \<lparr>appraiser_id = ''a2'', appraiser_name = ''Bob''\<rparr>,
          \<lparr>appraiser_id = ''a3'', appraiser_name = ''Cy''\<rparr>]\<rparr>\<rparr>) \<and>
   syncLocalToCloud (\<lambda>n. False)
     \<lparr>supabase = Some (emptySupabase\<lparr>tbl_appraisers :=
         [\<lparr>appraiser_id = ''a1'', appraiser_name = ''Ann''\<rparr>,
          \<lparr>appraiser_id = ''a2'', appraiser_name = ''Bob''\<rparr>,
          \<lparr>appraiser_id = ''a3'', appraiser_name = ''Cy''\<rparr>]\<rparr>),
      localStorage = emptyLocalStorage\<lparr>ls_appraisers :=
         [\<lparr>appraiser_id = ''a1'', appraiser_name = ''Ann''\<rparr>,
          \<lparr>appraiser_id = ''a2'', appraiser_name = ''Bob''\<rparr>,
          \<lparr>appraiser_id = ''a3'', appraiser_name = ''Cy''\<rparr>]\<rparr>\<rparr>
   = (\<lparr>success = False, count = 0\<rparr>,
      \<lparr>supabase = Some (emptySupabase\<lparr>tbl_appraisers :=
         [\<lparr>appraiser_id = ''a1'', appraiser_name = ''Ann''\<rparr>,
          \<lparr>appraiser_id = ''a2'', appraiser_name = ''Bob''\<rparr>,
          \<lparr>appraiser_id = ''a3'', appraiser_name = ''Cy''\<rparr>]\<rparr>),
      localStorage = emptyLocalStorage\<lparr>ls_appraisers :=
         [\<lparr>appraiser_id = ''a1'', appraiser_name = ''Ann''\<rparr>,
          \<lparr>appraiser_id = ''a2'', appraiser_name = ''Bob''\<rparr>,
          \<lparr>appraiser_id = ''a3'', appraiser_name = ''Cy''\<rparr>]\<rparr>\<rparr>)"
  by (simp add: syncLocalToCloud_def andThen_def saveAppraiser_def db_insert_def
        emptySupabase_def emptyLocalStorage_def Let_def)

section \<open>Evaluation of the rounding\<close>

lemma binadeUp_numeral:
  "binadeUp (numeral k) x = (if x < 2 then 0 else 1 + binadeUp (pred_numeral k) (x / 2))"
  by (simp add: numeral_eq_Suc)

lemma binadeDown_numeral:
  "binadeDown (numeral k) x = (if 1 \<le> x then 0 else binadeDown (pred_numeral k) (2 * x) - 1)"
  by (simp add: numeral_eq_Suc)

lemmas round64_eval = round64_def ulp64_def exponent64_def binadeUp_numeral binadeDown_numeral
  roundHalfEven_def Let_def

lemma round64_not_NaN: "round64 x \<noteq> NaN64"
  by (simp add: round64_def Let_def)

lemma round64_zero: "round64 0 = F64 0"
  by (simp add: round64_def roundHalfEven_def Let_def)

section \<open>Technician profiles\<close>

lemma map_of_techMap_set: "map_of (techMap_set k v m) = (map_of m)(k \<mapsto> v)"
  by (induction m) (auto simp: fun_eq_iff)

lemma keys_techMap_set:
  "map fst (techMap_set k v m) = (if k \<in> set (map fst m) then map fst m else map fst m @ [k])"
  by (induction m) auto

lemma distinct_techMap_set:
  "distinct (map fst m) \<Longrightarrow> distinct (map fst (techMap_set k v m))"
  by (simp add: keys_techMap_set)

lemma getOrZero_techMap_set:
  "techMap_getOrZero (techMap_set k v m) n = (if n = k then v else techMap_getOrZero m n)"
  by (simp add: techMap_getOrZero_def map_of_techMap_set)

lemma keyset_techMap_set: "fst ` set (techMap_set k v m) = insert k (fst ` set m)"
  by (induction m) auto

lemma keys_addCase:
  "set (map fst (addCase m c)) =
     set (map fst m) \<union> (if technicianName (data c) = [] then {} else {technicianName (data c)})"
  by (simp add: addCase_def Let_def keyset_techMap_set)

lemma distinct_addCase: "distinct (map fst m) \<Longrightarrow> distinct (map fst (addCase m c))"
  by (simp add: addCase_def Let_def distinct_techMap_set)

lemma variance_addCase:
  "n \<noteq> [] \<Longrightarrow> tech_variance (techMap_getOrZero (addCase m c) n) =
     (if technicianName (data c) = n
      then d_add (tech_variance (techMap_getOrZero m n)) (caseVariance c)
      else tech_variance (techMap_getOrZero m n))"
  by (auto simp: addCase_def Let_def getOrZero_techMap_set)

lemma count_addCase:
  "n \<noteq> [] \<Longrightarrow> tech_count (techMap_getOrZero (addCase m c) n) =
     tech_count (techMap_getOrZero m n) + (if technicianName (data c) = n then 1 else 0)"
  by (auto simp: addCase_def Let_def getOrZero_techMap_set)

lemma keys_foldl_addCase:
  "set (map fst (foldl addCase m cs)) =
     set (map fst m) \<union> {technicianName (data c) |c. c \<in> set cs \<and> technicianName (data c) \<noteq> []}"
proof (induction cs arbitrary: m)
  case Nil
  then show ?case by simp
next
  case (Cons c cs)
  show ?case unfolding foldl_Cons Cons.IH keys_addCase by auto
qed

lemma distinct_foldl_addCase:
  "distinct (map fst m) \<Longrightarrow> distinct (map fst (foldl addCase m cs))"
  by (induction cs arbitrary: m) (simp_all add: distinct_addCase)

lemma variance_foldl_addCase:
  "n \<noteq> [] \<Longrightarrow> tech_variance (techMap_getOrZero (foldl addCase m cs) n) =
     foldl d_add (tech_variance (techMap_getOrZero m n))
       (map caseVariance (filter (\<lambda>c. technicianName (data c) = n) cs))"
  by (induction cs arbitrary: m) (simp_all add: variance_addCase)

lemma count_foldl_addCase:
  "n \<noteq> [] \<Longrightarrow> tech_count (techMap_getOrZero (foldl addCase m cs) n) =
     tech_count (techMap_getOrZero m n) + length (filter (\<lambda>c. technicianName (data c) = n) cs)"
  by (induction cs arbitrary: m) (simp_all add: count_addCase)

lemma entry_getOrZero:
  "distinct (map fst m) \<Longrightarrow> e \<in> set m \<Longrightarrow> techMap_getOrZero m (fst e) = snd e"
  by (cases e) (simp add: techMap_getOrZero_def)

lemma profile_of_entry:
  assumes "e \<in> set (foldl addCase [] cases)"
  defines "cs \<equiv> filter (\<lambda>c. technicianName (data c) = fst e) cases"
  shows "fst e \<noteq> [] \<and> cs \<noteq> [] \<and> tech_count (snd e) = length cs \<and>
         tech_variance (snd e) = foldl d_add (F64 0) (map caseVariance cs)"
proof -
  have "fst e \<in> set (map fst (foldl addCase [] cases))" using assms(1) by force
  then have k: "fst e \<in> {technicianName (data c) |c. c \<in> set cases \<and> technicianName (data c) \<noteq> []}"
    unfolding keys_foldl_addCase by simp
  then have ne: "fst e \<noteq> []" by auto
  from k have "cs \<noteq> []" unfolding cs_def by (auto simp: filter_empty_conv)
  moreover have g: "techMap_getOrZero (foldl addCase [] cases) (fst e) = snd e"
    using entry_getOrZero [OF distinct_foldl_addCase assms(1)] by simp
  moreover have "tech_count (snd e) = length cs"
    using count_foldl_addCase [OF ne, of "[]" cases] unfolding g cs_def
    by (simp add: techMap_getOrZero_def)
  moreover have "tech_variance (snd e) = foldl d_add (F64 0) (map caseVariance cs)"
    using variance_foldl_addCase [OF ne, of "[]" cases] unfolding g cs_def
    by (simp add: techMap_getOrZero_def)
  ultimately show ?thesis using ne by simp
qed

text \<open>
  C8, as the code has it. The profiles have one entry for each non-empty technician name
  that occurs in the cases, and none for the cases without a name. For each profile, over
  the cases of that technician in the order of the list: the number of cases is their
  count; the average variance is computed in double precision, as the differences
  service estimate minus manager estimate (an estimate that is missing, \<open>NaN\<close> or 0
  taken as 0) added up from 0 and divided by the count, every difference, every partial
  sum and the quotient rounded to a double; the accuracy rating is
  \<open>max 0 (100 - |avg| / 100)\<close> in the same arithmetic; and the tag is Aggressive exactly
  when the computed average is above 1500, Passive exactly when it is below -500, and
  Accurate otherwise, also when it is \<open>NaN\<close>.
\<close>

theorem C8_technicianProfiles:
  "distinct (map stats_technicianName (technicianProfiles cases)) \<and>
   set (map stats_technicianName (technicianProfiles cases)) =
     {technicianName (data c) |c. c \<in> set cases \<and> technicianName (data c) \<noteq> []} \<and>
   (\<forall>p \<in> set (technicianProfiles cases).
      filter (\<lambda>c. technicianName (data c) = stats_technicianName p) cases \<noteq> [] \<and>
      totalCases p = length (filter (\<lambda>c. technicianName (data c) = stats_technicianName p) cases) \<and>
      avgVariance p =
        d_div (foldl d_add (F64 0)
                 (map (\<lambda>c. d_sub (orZero (serviceDepartmentEstimate (data c)))
                                  (orZero (managerAppraisalEstimate (data c))))
                    (filter (\<lambda>c. technicianName (data c) = stats_technicianName p) cases)))
              (F64 (real (totalCases p))) \<and>
      accuracyRating p = d_max (F64 0) (d_sub (F64 100) (d_div (d_abs (avgVariance p)) (F64 100))) \<and>
      (reliabilityTag p = Aggressive \<longleftrightarrow> d_less (F64 1500) (avgVariance p)) \<and>
      (reliabilityTag p = Passive \<longleftrightarrow> d_less (avgVariance p) (F64 (- 500))) \<and>
      (reliabilityTag p = Accurate \<longleftrightarrow>
         \<not> d_less (F64 1500) (avgVariance p) \<and> \<not> d_less (avgVariance p) (F64 (- 500)))) \<and>
   orZero None = F64 0 \<and> orZero (Some NaN64) = F64 0"
proof -
  have names: "map stats_technicianName (technicianProfiles cases) = map fst (foldl addCase [] cases)"
    by (simp add: technicianProfiles_def toProfile_def Let_def comp_def)
  have d: "distinct (map stats_technicianName (technicianProfiles cases))"
    unfolding names by (simp add: distinct_foldl_addCase)
  have s: "set (map stats_technicianName (technicianProfiles cases)) =
     {technicianName (data c) |c. c \<in> set cases \<and> technicianName (data c) \<noteq> []}"
    unfolding names keys_foldl_addCase by simp
  have cv: "caseVariance = (\<lambda>c. d_sub (orZero (serviceDepartmentEstimate (data c)))
                                  (orZero (managerAppraisalEstimate (data c))))"
    by (simp add: fun_eq_iff caseVariance_def)
  have excl: "\<And>x. d_less (F64 1500) x \<Longrightarrow> \<not> d_less x (F64 (- 500))"
  proof -
    fix x show "d_less (F64 1500) x \<Longrightarrow> \<not> d_less x (F64 (- 500))" by (cases x) auto
  qed
  have p: "\<forall>p \<in> set (technicianProfiles cases).
      filter (\<lambda>c. technicianName (data c) = stats_technicianName p) cases \<noteq> [] \<and>
      totalCases p = length (filter (\<lambda>c. technicianName (data c) = stats_technicianName p) cases) \<and>
      avgVariance p =
        d_div (foldl d_add (F64 0)
                 (map (\<lambda>c. d_sub (orZero (serviceDepartmentEstimate (data c)))
                                  (orZero (managerAppraisalEstimate (data c))))
                    (filter (\<lambda>c. technicianName (data c) = stats_technicianName p) cases)))
              (F64 (real (totalCases p))) \<and>
      accuracyRating p = d_max (F64 0) (d_sub (F64 100) (d_div (d_abs (avgVariance p)) (F64 100))) \<and>
      (reliabilityTag p = Aggressive \<longleftrightarrow> d_less (F64 1500) (avgVariance p)) \<and>
      (reliabilityTag p = Passive \<longleftrightarrow> d_less (avgVariance p) (F64 (- 500))) \<and>
      (reliabilityTag p = Accurate \<longleftrightarrow>
         \<not> d_less (F64 1500) (avgVariance p) \<and> \<not> d_less (avgVariance p) (F64 (- 500)))"
  proof
    fix p assume "p \<in> set (technicianProfiles cases)"
    then obtain e where e: "e \<in> set (foldl addCase [] cases)" and pe: "p = toProfile e"
      by (auto simp: technicianProfiles_def)
    note f = profile_of_entry [OF e]
    have n: "stats_technicianName p = fst e" by (simp add: pe toProfile_def Let_def)
    have t: "totalCases p = tech_count (snd e)" by (simp add: pe toProfile_def Let_def)
    have a: "avgVariance p = d_div (tech_variance (snd e)) (F64 (real (tech_count (snd e))))"
      by (simp add: pe toProfile_def Let_def)
    have r: "accuracyRating p = d_max (F64 0) (d_sub (F64 100) (d_div (d_abs (avgVariance p)) (F64 100)))"
      by (simp add: pe toProfile_def Let_def)
    have g: "reliabilityTag p =
        (if d_less (F64 1500) (avgVariance p) then Aggressive
         else if d_less (avgVariance p) (F64 (- 500)) then Passive else Accurate)"
      by (simp add: pe toProfile_def Let_def)
    have tags: "(reliabilityTag p = Aggressive \<longleftrightarrow> d_less (F64 1500) (avgVariance p)) \<and>
      (reliabilityTag p = Passive \<longleftrightarrow> d_less (avgVariance p) (F64 (- 500))) \<and>
      (reliabilityTag p = Accurate \<longleftrightarrow>
         \<not> d_less (F64 1500) (avgVariance p) \<and> \<not> d_less (avgVariance p) (F64 (- 500)))"
      unfolding g using excl [of "avgVariance p"] by auto
    have av: "avgVariance p =
        d_div (foldl d_add (F64 0)
                 (map (\<lambda>c. d_sub (orZero (serviceDepartmentEstimate (data c)))
                                  (orZero (managerAppraisalEstimate (data c))))
                    (filter (\<lambda>c. technicianName (data c) = stats_technicianName p) cases)))
              (F64 (real (totalCases p)))"
      unfolding a t n cv [symmetric] using f by simp
    have tc: "filter (\<lambda>c. technicianName (data c) = stats_technicianName p) cases \<noteq> [] \<and>
      totalCases p = length (filter (\<lambda>c. technicianName (data c) = stats_technicianName p) cases)"
      unfolding n t using f by simp
    show "filter (\<lambda>c. technicianName (data c) = stats_technicianName p) cases \<noteq> [] \<and>
      totalCases p = length (filter (\<lambda>c. technicianName (data c) = stats_technicianName p) cases) \<and>
      avgVariance p =
        d_div (foldl d_add (F64 0)
                 (map (\<lambda>c. d_sub (orZero (serviceDepartmentEstimate (data c)))
                                  (orZero (managerAppraisalEstimate (data c))))
                    (filter (\<lambda>c. technicianName (data c) = stats_technicianName p) cases)))
              (F64 (real (totalCases p))) \<and>
      accuracyRating p = d_max (F64 0) (d_sub (F64 100) (d_div (d_abs (avgVariance p)) (F64 100))) \<and>
      (reliabilityTag p = Aggressive \<longleftrightarrow> d_less (F64 1500) (avgVariance p)) \<and>
      (reliabilityTag p = Passive \<longleftrightarrow> d_less (avgVariance p) (F64 (- 500))) \<and>
      (reliabilityTag p = Accurate \<longleftrightarrow>
         \<not> d_less (F64 1500) (avgVariance p) \<and> \<not> d_less (avgVariance p) (F64 (- 500)))"
      using tc av r tags by (intro conjI) simp_all
  qed
  show ?thesis using d s p by simp
qed

theorem C8_technicianProfiles_witness:
  "technicianProfiles
     [sampleCase,
      sampleCase\<lparr>data := sampleData\<lparr>serviceDepartmentEstimate := Some (F64 2000),
                                     managerAppraisalEstimate := None\<rparr>\<rparr>,
      sampleCase\<lparr>data := sampleData\<lparr>technicianName := []\<rparr>\<rparr>]
     = [\<lparr>stats_technicianName = ''A'', stats_appraiserName = [], totalCases = 2,
         avgVariance = F64 1100, accuracyRating = F64 89, reliabilityTag = Accurate\<rparr>] \<and>
   map reliabilityTag (technicianProfiles
     [sampleCase\<lparr>data := sampleData\<lparr>serviceDepartmentEstimate := Some (F64 1500),
                                     managerAppraisalEstimate := None\<rparr>\<rparr>]) = [Accurate] \<and>
   map reliabilityTag (technicianProfiles
     [sampleCase\<lparr>data := sampleData\<lparr>serviceDepartmentEstimate := Some (F64 1501),
                                     managerAppraisalEstimate := None\<rparr>\<rparr>]) = [Aggressive] \<and>
   map reliabilityTag (technicianProfiles
     [sampleCase\<lparr>data := sampleData\<lparr>serviceDepartmentEstimate := Some PosInf,
                                     managerAppraisalEstimate := Some PosInf\<rparr>\<rparr>]) = [Accurate]"
proof -
  let ?cs = "[sampleCase,
      sampleCase\<lparr>data := sampleData\<lparr>serviceDepartmentEstimate := Some (F64 2000),
                                     managerAppraisalEstimate := None\<rparr>\<rparr>,
      sampleCase\<lparr>data := sampleData\<lparr>technicianName := []\<rparr>\<rparr>]"
  have r: "d_sub (F64 1000) (F64 800) = F64 200" "d_sub (F64 2000) (F64 0) = F64 2000"
    "d_add (F64 0) (F64 200) = F64 200" "d_add (F64 200) (F64 2000) = F64 2200"
    "d_div (F64 2200) (F64 2) = F64 1100" "d_div (F64 1100) (F64 100) = F64 11"
    "d_sub (F64 100) (F64 11) = F64 89"
    "d_sub (F64 1500) (F64 0) = F64 1500" "d_add (F64 0) (F64 1500) = F64 1500"
    "d_div (F64 1500) (F64 1) = F64 1500"
    "d_sub (F64 1501) (F64 0) = F64 1501" "d_add (F64 0) (F64 1501) = F64 1501"
    "d_div (F64 1501) (F64 1) = F64 1501"
    by (simp_all add: round64_eval)
  have n: "map stats_technicianName (technicianProfiles ?cs) = [''A'']"
    by (simp add: technicianProfiles_def addCase_def toProfile_def techMap_getOrZero_def
          sampleCase_def sampleData_def Let_def)
  then obtain p where p: "technicianProfiles ?cs = [p]" by auto
  have pn: "stats_technicianName p = ''A''" using n p by simp
  have pa: "stats_appraiserName p = []"
    using p by (auto simp: technicianProfiles_def toProfile_def Let_def)
  have f: "filter (\<lambda>c. technicianName (data c) = ''A'') ?cs =
      [sampleCase,
       sampleCase\<lparr>data := sampleData\<lparr>serviceDepartmentEstimate := Some (F64 2000),
                                     managerAppraisalEstimate := None\<rparr>\<rparr>]"
    by (simp add: sampleCase_def sampleData_def)
  have pin: "p \<in> set (technicianProfiles ?cs)" using p by simp
  note c8 = C8_technicianProfiles [of ?cs, THEN conjunct2, THEN conjunct2, THEN conjunct1,
      THEN bspec, OF pin]
  have t: "totalCases p = 2" using c8 unfolding pn f by simp
  have a: "avgVariance p = F64 1100" using c8 unfolding pn f t
    by (simp add: sampleCase_def sampleData_def r del: d_sub.simps d_add.simps d_div.simps)
  have ra: "accuracyRating p = F64 89" using c8 unfolding a
    by (simp add: r del: d_sub.simps d_add.simps d_div.simps)
  have g: "reliabilityTag p = Accurate"
  proof -
    have "reliabilityTag p = Accurate \<longleftrightarrow>
         \<not> d_less (F64 1500) (avgVariance p) \<and> \<not> d_less (avgVariance p) (F64 (- 500))"
      using c8 by blast
    then show ?thesis unfolding a by simp
  qed
  have 1: "technicianProfiles ?cs = [\<lparr>stats_technicianName = ''A'', stats_appraiserName = [], totalCases = 2,
         avgVariance = F64 1100, accuracyRating = F64 89, reliabilityTag = Accurate\<rparr>]"
    unfolding p using pn pa t a ra g by (cases p) simp
  have 2: "map reliabilityTag (technicianProfiles
     [sampleCase\<lparr>data := sampleData\<lparr>serviceDepartmentEstimate := Some (F64 1500),
                                     managerAppraisalEstimate := None\<rparr>\<rparr>]) = [Accurate]"
    by (simp add: technicianProfiles_def addCase_def toProfile_def techMap_getOrZero_def
          caseVariance_def sampleCase_def sampleData_def Let_def r
          del: d_sub.simps d_add.simps d_div.simps)
  have 3: "map reliabilityTag (technicianProfiles
     [sampleCase\<lparr>data := sampleData\<lparr>serviceDepartmentEstimate := Some (F64 1501),
                                     managerAppraisalEstimate := None\<rparr>\<rparr>]) = [Aggressive]"
    by (simp add: technicianProfiles_def addCase_def toProfile_def techMap_getOrZero_def
          caseVariance_def sampleCase_def sampleData_def Let_def r
          del: d_sub.simps d_add.simps d_div.simps)
  have 4: "map reliabilityTag (technicianProfiles
     [sampleCase\<lparr>data := sampleData\<lparr>serviceDepartmentEstimate := Some PosInf,
                                     managerAppraisalEstimate := Some PosInf\<rparr>\<rparr>]) = [Accurate]"
    by (simp add: technicianProfiles_def addCase_def toProfile_def techMap_getOrZero_def
          caseVariance_def sampleCase_def sampleData_def Let_def)
  show ?thesis by (intro conjI 1 2 3 4)
qed

text \<open>
  C8, as stated, fails: the computed average is not always the arithmetic mean. For the
  whole-number estimates (9007199254740996, 1) and (0, 9007199254737995) the mean is
  exactly 1500, and the code computes 1500.5 and the tag Aggressive, because the first
  difference is rounded up. For the amounts 2058.01, 0.62 and 1296.24, 353.63, held as
  the nearest doubles, the code computes 1500.0000000000002, which is not the mean of
  the stored values.
\<close>

theorem C8_counterexample:
  "arithmeticMean
     [sampleCase\<lparr>data := sampleData\<lparr>serviceDepartmentEstimate := Some (F64 9007199254740996),
                                     managerAppraisalEstimate := Some (F64 1)\<rparr>\<rparr>,
      sampleCase\<lparr>data := sampleData\<lparr>serviceDepartmentEstimate := Some (F64 0),
                                     managerAppraisalEstimate := Some (F64 9007199254737995)\<rparr>\<rparr>]
     = 1500 \<and>
   map avgVariance (technicianProfiles
     [sampleCase\<lparr>data := sampleData\<lparr>serviceDepartmentEstimate := Some (F64 9007199254740996),
                                     managerAppraisalEstimate := Some (F64 1)\<rparr>\<rparr>,
      sampleCase\<lparr>data := sampleData\<lparr>serviceDepartmentEstimate := Some (F64 0),
                                     managerAppraisalEstimate := Some (F64 9007199254737995)\<rparr>\<rparr>])
     = [F64 (3001 / 2)] \<and>
   map reliabilityTag (technicianProfiles
     [sampleCase\<lparr>data := sampleData\<lparr>serviceDepartmentEstimate := Some (F64 9007199254740996),
                                     managerAppraisalEstimate := Some (F64 1)\<rparr>\<rparr>,
      sampleCase\<lparr>data := sampleData\<lparr>serviceDepartmentEstimate := Some (F64 0),
                                     managerAppraisalEstimate := Some (F64 9007199254737995)\<rparr>\<rparr>])
     = [Aggressive] \<and>
   round64 (205801 / 100) = F64 (1131402962539643 / 549755813888) \<and>
   round64 (62 / 100) = F64 (5584463537939415 / 9007199254740992) \<and>
   round64 (129624 / 100) = F64 (5700923809553449 / 4398046511104) \<and>
   round64 (35363 / 100) = F64 (3110562375443415 / 8796093022208) \<and>
   arithmeticMean
     [sampleCase\<lparr>data := sampleData\<lparr>
         serviceDepartmentEstimate := Some (F64 (1131402962539643 / 549755813888)),
         managerAppraisalEstimate := Some (F64 (5584463537939415 / 9007199254740992))\<rparr>\<rparr>,
      sampleCase\<lparr>data := sampleData\<lparr>
         serviceDepartmentEstimate := Some (F64 (5700923809553449 / 4398046511104)),
         managerAppraisalEstimate := Some (F64 (3110562375443415 / 8796093022208))\<rparr>\<rparr>]
     = 27021597764222978089 / 18014398509481984 \<and>
   map avgVariance (technicianProfiles
     [sampleCase\<lparr>data := sampleData\<lparr>
         serviceDepartmentEstimate := Some (F64 (1131402962539643 / 549755813888)),
         managerAppraisalEstimate := Some (F64 (5584463537939415 / 9007199254740992))\<rparr>\<rparr>,
      sampleCase\<lparr>data := sampleData\<lparr>
         serviceDepartmentEstimate := Some (F64 (5700923809553449 / 4398046511104)),
         managerAppraisalEstimate := Some (F64 (3110562375443415 / 8796093022208))\<rparr>\<rparr>])
     = [F64 (6597069766656001 / 4398046511104)] \<and>
   (27021597764222978089 / 18014398509481984 :: real) \<noteq> 6597069766656001 / 4398046511104"
proof -
  have m1: "arithmeticMean
     [sampleCase\<lparr>data := sampleData\<lparr>serviceDepartmentEstimate := Some (F64 9007199254740996),
                                     managerAppraisalEstimate := Some (F64 1)\<rparr>\<rparr>,
      sampleCase\<lparr>data := sampleData\<lparr>serviceDepartmentEstimate := Some (F64 0),
                                     managerAppraisalEstimate := Some (F64 9007199254737995)\<rparr>\<rparr>]
     = 1500"
    by (simp add: arithmeticMean_def)
  have s1: "d_sub (F64 9007199254740996) (F64 1) = F64 9007199254740996"
    and s2: "d_sub (F64 0) (F64 9007199254737995) = F64 (- 9007199254737995)"
    and s3: "d_add (F64 0) (F64 9007199254740996) = F64 9007199254740996"
    and s4: "d_add (F64 9007199254740996) (F64 (- 9007199254737995)) = F64 3001"
    and s5: "d_div (F64 3001) (F64 2) = F64 (3001 / 2)"
    by (simp_all add: round64_eval)
  have a1: "map avgVariance (technicianProfiles
     [sampleCase\<lparr>data := sampleData\<lparr>serviceDepartmentEstimate := Some (F64 9007199254740996),
                                     managerAppraisalEstimate := Some (F64 1)\<rparr>\<rparr>,
      sampleCase\<lparr>data := sampleData\<lparr>serviceDepartmentEstimate := Some (F64 0),
                                     managerAppraisalEstimate := Some (F64 9007199254737995)\<rparr>\<rparr>])
     = [F64 (3001 / 2)]"
    by (simp add: technicianProfiles_def addCase_def toProfile_def techMap_getOrZero_def
          caseVariance_def sampleCase_def sampleData_def Let_def s1 s2 s3 s4 s5
          del: d_sub.simps d_add.simps d_div.simps)
  have t1: "map reliabilityTag (technicianProfiles
     [sampleCase\<lparr>data := sampleData\<lparr>serviceDepartmentEstimate := Some (F64 9007199254740996),
                                     managerAppraisalEstimate := Some (F64 1)\<rparr>\<rparr>,
      sampleCase\<lparr>data := sampleData\<lparr>serviceDepartmentEstimate := Some (F64 0),
                                     managerAppraisalEstimate := Some (F64 9007199254737995)\<rparr>\<rparr>])
     = [Aggressive]"
    by (simp add: technicianProfiles_def addCase_def toProfile_def techMap_getOrZero_def
          caseVariance_def sampleCase_def sampleData_def Let_def s1 s2 s3 s4 s5
          del: d_sub.simps d_add.simps d_div.simps)
  have p1: "round64 (205801 / 100) = F64 (1131402962539643 / 549755813888)"
    and p2: "round64 (62 / 100) = F64 (5584463537939415 / 9007199254740992)"
    and p3: "round64 (129624 / 100) = F64 (5700923809553449 / 4398046511104)"
    and p4: "round64 (35363 / 100) = F64 (3110562375443415 / 8796093022208)"
    by (simp_all add: round64_eval)
  have m2: "arithmeticMean
     [sampleCase\<lparr>data := sampleData\<lparr>
         serviceDepartmentEstimate := Some (F64 (1131402962539643 / 549755813888)),
         managerAppraisalEstimate := Some (F64 (5584463537939415 / 9007199254740992))\<rparr>\<rparr>,
      sampleCase\<lparr>data := sampleData\<lparr>
         serviceDepartmentEstimate := Some (F64 (5700923809553449 / 4398046511104)),
         managerAppraisalEstimate := Some (F64 (3110562375443415 / 8796093022208))\<rparr>\<rparr>]
     = 27021597764222978089 / 18014398509481984"
    by (simp add: arithmeticMean_def)
  have u1: "d_sub (F64 (1131402962539643 / 549755813888)) (F64 (5584463537939415 / 9007199254740992))
              = F64 (2262124227870065 / 1099511627776)"
    and u2: "d_sub (F64 (5700923809553449 / 4398046511104)) (F64 (3110562375443415 / 8796093022208))
              = F64 (8291285243663483 / 8796093022208)"
    and u3: "d_add (F64 0) (F64 (2262124227870065 / 1099511627776))
              = F64 (2262124227870065 / 1099511627776)"
    and u4: "d_add (F64 (2262124227870065 / 1099511627776)) (F64 (8291285243663483 / 8796093022208))
              = F64 (6597069766656001 / 2199023255552)"
    and u5: "d_div (F64 (6597069766656001 / 2199023255552)) (F64 2)
              = F64 (6597069766656001 / 4398046511104)"
    by (simp_all add: round64_eval)
  have a2: "map avgVariance (technicianProfiles
     [sampleCase\<lparr>data := sampleData\<lparr>
         serviceDepartmentEstimate := Some (F64 (1131402962539643 / 549755813888)),
         managerAppraisalEstimate := Some (F64 (5584463537939415 / 9007199254740992))\<rparr>\<rparr>,
      sampleCase\<lparr>data := sampleData\<lparr>
         serviceDepartmentEstimate := Some (F64 (5700923809553449 / 4398046511104)),
         managerAppraisalEstimate := Some (F64 (3110562375443415 / 8796093022208))\<rparr>\<rparr>])
     = [F64 (6597069766656001 / 4398046511104)]"
    by (simp add: technicianProfiles_def addCase_def toProfile_def techMap_getOrZero_def
          caseVariance_def sampleCase_def sampleData_def Let_def u1 u2 u3 u4 u5
          del: d_sub.simps d_add.simps d_div.simps)
  have ne: "(27021597764222978089 / 18014398509481984 :: real) \<noteq> 6597069766656001 / 4398046511104"
    by simp
  show ?thesis by (intro conjI m1 a1 t1 p1 p2 p3 p4 m2 a2 ne)
qed

section \<open>The detected total and the service estimate\<close>

lemma parseFloat_NaN: "parseFloat s = NaN64 \<longleftrightarrow> \<not> startsWithNumber s"
proof (cases s rule: startsWithNumber.cases)
  case 1
  then show ?thesis by (simp add: parseFloat_def)
next
  case (2 c)
  then show ?thesis by (simp add: parseFloat_def Let_def round64_not_NaN)
next
  case (3 c d cs)
  have "\<not> isDigit 46" by (simp add: isDigit_def)
  with 3 show ?thesis by (auto simp: parseFloat_def Let_def round64_not_NaN)
qed

lemma db_upsert_member: "r \<in> set (db_upsert key r rows)"
  by (induction rows) auto

lemma replaceFirst_member: "replaceFirst p r xs = Some ys \<Longrightarrow> r \<in> set ys"
  by (induction xs arbitrary: ys) (auto split: if_splits)

lemma saved_case_read_back:
  "\<exists>w'. saveCase False w c = Inr w' \<and> c \<in> set (getAllCases False w')"
proof (cases "supabase w")
  case None
  show ?thesis
  proof (cases "replaceFirst (\<lambda>d. case_id d = case_id c) c (ls_cases (localStorage w))")
    case n: None
    then show ?thesis using None by (simp add: saveCase_def setLocal_def getAllCases_def)
  next
    case (Some ys)
    then show ?thesis using None replaceFirst_member [OF Some]
      by (simp add: saveCase_def setLocal_def getAllCases_def)
  qed
next
  case (Some db)
  then show ?thesis
    by (simp add: saveCase_def getAllCases_def db_order_desc_def db_upsert_member)
qed

lemma truthy_iff: "truthy T \<longleftrightarrow> T \<noteq> None \<and> T \<noteq> Some NaN64 \<and> T \<noteq> Some (F64 0)"
  by (cases T rule: truthy.cases) auto

lemma orZero_truthy: "truthy T \<Longrightarrow> Some (orZero T) = T"
  by (cases T rule: truthy.cases) auto

lemmas parse_eval = analyzeInspection_result_def matchTotalAt_def parseFloat_def isSpace_def
  isTotalChar_def isDigit_def digitsValue_def unitsOf_def Let_def

text \<open>
  C10, as the code has it. The case built by \<open>handleAnalyze\<close> carries the detected total
  as its service estimate when the detected total is truthy, that is, neither absent
  (the text has no marker) nor \<open>NaN\<close> nor 0, and the variance of the case is computed
  from it; otherwise the estimate entered by the user is kept. The detected total is
  \<open>NaN\<close> exactly when the marker is there and its captured text, commas removed,
  begins neither with a digit nor with a dot followed by a digit. A detected total
  that is finite and not 0 is the service estimate of the case that is saved and read
  back under the new id.
\<close>

theorem C10_detected_total_replaces_estimate:
  "fst (handleAnalyze newId now fails (Response t) w v d m)
     = Some (newCaseOf newId now (analyzeInspection_result t) v d m) \<and>
   detectedTotal (newCaseOf newId now (analyzeInspection_result t) v d m)
     = result_detectedTotal (analyzeInspection_result t) \<and>
   (truthy (result_detectedTotal (analyzeInspection_result t)) \<longleftrightarrow>
      result_detectedTotal (analyzeInspection_result t) \<noteq> None \<and>
      result_detectedTotal (analyzeInspection_result t) \<noteq> Some NaN64 \<and>
      result_detectedTotal (analyzeInspection_result t) \<noteq> Some (F64 0)) \<and>
   (truthy (result_detectedTotal (analyzeInspection_result t)) \<longrightarrow>
      serviceDepartmentEstimate (data (newCaseOf newId now (analyzeInspection_result t) v d m))
        = result_detectedTotal (analyzeInspection_result t) \<and>
      caseVariance (newCaseOf newId now (analyzeInspection_result t) v d m)
        = d_sub (orZero (result_detectedTotal (analyzeInspection_result t)))
                (orZero (managerAppraisalEstimate d))) \<and>
   (\<not> truthy (result_detectedTotal (analyzeInspection_result t)) \<longrightarrow>
      serviceDepartmentEstimate (data (newCaseOf newId now (analyzeInspection_result t) v d m))
        = serviceDepartmentEstimate d) \<and>
   (result_detectedTotal (analyzeInspection_result t) = Some (F64 x) \<and> x \<noteq> 0 \<longrightarrow>
      (\<exists>c \<in> set (getAllCases False (snd (handleAnalyze newId now False (Response t) w v d m))).
         case_id c = newId \<and> serviceDepartmentEstimate (data c) = Some (F64 x))) \<and>
   (result_detectedTotal (analyzeInspection_result t) = None \<longleftrightarrow>
      matchTotal (result_text (analyzeInspection_result t)) = None) \<and>
   (matchTotal (result_text (analyzeInspection_result t)) = Some g \<longrightarrow>
      (result_detectedTotal (analyzeInspection_result t) = Some NaN64 \<longleftrightarrow>
         \<not> startsWithNumber (filter (\<lambda>c. c \<noteq> 44) g)))"
proof -
  let ?r = "analyzeInspection_result t"
  let ?T = "result_detectedTotal ?r"
  let ?c = "newCaseOf newId now ?r v d m"
  have 1: "fst (handleAnalyze newId now fails (Response t) w v d m) = Some ?c"
    by (simp add: handleAnalyze_def Let_def)
  have 2: "detectedTotal ?c = ?T"
    by (simp add: newCaseOf_def)
  have 3: "truthy ?T \<longleftrightarrow> ?T \<noteq> None \<and> ?T \<noteq> Some NaN64 \<and> ?T \<noteq> Some (F64 0)"
    by (rule truthy_iff)
  have 4: "truthy ?T \<longrightarrow>
      serviceDepartmentEstimate (data ?c) = ?T \<and>
      caseVariance ?c = d_sub (orZero ?T) (orZero (managerAppraisalEstimate d))"
    by (simp add: newCaseOf_def js_or_def caseVariance_def)
  have 5: "\<not> truthy ?T \<longrightarrow> serviceDepartmentEstimate (data ?c) = serviceDepartmentEstimate d"
    by (simp add: newCaseOf_def js_or_def)
  have rb: "?c \<in> set (getAllCases False (snd (handleAnalyze newId now False (Response t) w v d m)))"
    using saved_case_read_back [of w ?c] by (auto simp: handleAnalyze_def Let_def)
  have 6: "?T = Some (F64 x) \<and> x \<noteq> 0 \<longrightarrow>
      (\<exists>c \<in> set (getAllCases False (snd (handleAnalyze newId now False (Response t) w v d m))).
         case_id c = newId \<and> serviceDepartmentEstimate (data c) = Some (F64 x))"
  proof
    assume a: "?T = Some (F64 x) \<and> x \<noteq> 0"
    then have e: "serviceDepartmentEstimate (data ?c) = Some (F64 x)"
      by (simp add: newCaseOf_def js_or_def)
    have i: "case_id ?c = newId" by (simp add: newCaseOf_def)
    show "\<exists>c \<in> set (getAllCases False (snd (handleAnalyze newId now False (Response t) w v d m))).
         case_id c = newId \<and> serviceDepartmentEstimate (data c) = Some (F64 x)"
      using e i rb by blast
  qed
  have 7: "?T = None \<longleftrightarrow> matchTotal (result_text ?r) = None"
    by (simp add: analyzeInspection_result_def Let_def split: option.splits)
  have 8: "matchTotal (result_text ?r) = Some g \<longrightarrow>
      (?T = Some NaN64 \<longleftrightarrow> \<not> startsWithNumber (filter (\<lambda>c. c \<noteq> 44) g))"
    by (simp add: analyzeInspection_result_def Let_def parseFloat_NaN)
  show ?thesis by (intro conjI 1 2 3 4 5 6 7 8)
qed

theorem C10_detected_total_replaces_estimate_witness:
  "result_detectedTotal (analyzeInspection_result
       (Some (unitsOf ''Total due. [DETECTED_TOTAL: 1,234.50]''))) = Some (F64 (2469 / 2)) \<and>
   truthy (Some (F64 (2469 / 2))) \<and>
   serviceDepartmentEstimate sampleData = Some (F64 1000) \<and>
   serviceDepartmentEstimate (data (newCaseOf ''c9'' 7
       (analyzeInspection_result (Some (unitsOf ''Total due. [DETECTED_TOTAL: 1,234.50]'')))
       sampleVehicle sampleData AUDIT)) = Some (F64 (2469 / 2)) \<and>
   caseVariance (newCaseOf ''c9'' 7
       (analyzeInspection_result (Some (unitsOf ''Total due. [DETECTED_TOTAL: 1,234.50]'')))
       sampleVehicle sampleData AUDIT) = F64 (869 / 2) \<and>
   map (\<lambda>c. (case_id c, serviceDepartmentEstimate (data c)))
     (getAllCases False (snd (handleAnalyze ''c9'' 7 False
        (Response (Some (unitsOf ''Total due. [DETECTED_TOTAL: 1,234.50]'')))
        localWorld sampleVehicle sampleData AUDIT))) = [(''c9'', Some (F64 (2469 / 2)))] \<and>
   result_detectedTotal (analyzeInspection_result (Some (unitsOf ''no total''))) = None \<and>
   serviceDepartmentEstimate (data (newCaseOf ''c9'' 7
       (analyzeInspection_result (Some (unitsOf ''no total''))) sampleVehicle sampleData AUDIT))
     = Some (F64 1000) \<and>
   result_detectedTotal (analyzeInspection_result (Some (unitsOf ''[DETECTED_TOTAL: 0]'')))
     = Some (F64 0) \<and>
   serviceDepartmentEstimate (data (newCaseOf ''c9'' 7
       (analyzeInspection_result (Some (unitsOf ''[DETECTED_TOTAL: 0]''))) sampleVehicle sampleData AUDIT))
     = Some (F64 1000) \<and>
   matchTotal (result_text (analyzeInspection_result (Some (unitsOf ''[DETECTED_TOTAL: .5]''))))
     = Some [46, 53] \<and>
   startsWithNumber (filter (\<lambda>c. c \<noteq> 44) [46, 53]) \<and>
   result_detectedTotal (analyzeInspection_result (Some (unitsOf ''[DETECTED_TOTAL: .5]'')))
     = Some (F64 (1 / 2)) \<and>
   serviceDepartmentEstimate (data (newCaseOf ''c9'' 7
       (analyzeInspection_result (Some (unitsOf ''[DETECTED_TOTAL: .5]''))) sampleVehicle sampleData AUDIT))
     = Some (F64 (1 / 2)) \<and>
   result_detectedTotal (analyzeInspection_result
       (Some (unitsOf ''[DETECTED_TOTAL:'' @ [160] @ unitsOf ''5]''))) = Some (F64 5)"
proof -
  let ?t1 = "Some (unitsOf ''Total due. [DETECTED_TOTAL: 1,234.50]'')"
  let ?t2 = "Some (unitsOf ''no total'')"
  let ?t3 = "Some (unitsOf ''[DETECTED_TOTAL: 0]'')"
  let ?t4 = "Some (unitsOf ''[DETECTED_TOTAL: .5]'')"
  have r: "round64 (1 / 2) = F64 (1 / 2)" "round64 5 = F64 5" "round64 (2469 / 2) = F64 (2469 / 2)"
    "round64 (869 / 2) = F64 (869 / 2)"
    by (simp_all add: round64_eval)
  have a: "result_detectedTotal (analyzeInspection_result ?t1) = Some (F64 (2469 / 2))"
    by (simp add: parse_eval r)
  have b: "result_detectedTotal (analyzeInspection_result ?t2) = None"
    by (simp add: parse_eval)
  have z: "result_detectedTotal (analyzeInspection_result ?t3) = Some (F64 0)"
    by (simp add: parse_eval round64_zero)
  have h: "result_detectedTotal (analyzeInspection_result ?t4) = Some (F64 (1 / 2))"
    by (simp add: parse_eval r)
  have hm: "matchTotal (result_text (analyzeInspection_result ?t4)) = Some [46, 53]"
    by (simp add: parse_eval)
  have hs: "startsWithNumber (filter (\<lambda>c. c \<noteq> 44) [46, 53])"
    by (simp add: isDigit_def)
  have nb: "result_detectedTotal (analyzeInspection_result
       (Some (unitsOf ''[DETECTED_TOTAL:'' @ [160] @ unitsOf ''5]''))) = Some (F64 5)"
    by (simp add: parse_eval r)
  have tr: "truthy (Some (F64 (2469 / 2)))" by simp
  have e: "serviceDepartmentEstimate sampleData = Some (F64 1000)"
    and g: "orZero (managerAppraisalEstimate sampleData) = F64 800"
    by (simp_all add: sampleData_def)
  note t1 = C10_detected_total_replaces_estimate
      [of "''c9''" 7 False ?t1 localWorld sampleVehicle sampleData AUDIT "2469 / 2" "[]"]
  note t2 = C10_detected_total_replaces_estimate
      [of "''c9''" 7 False ?t2 localWorld sampleVehicle sampleData AUDIT 0 "[]"]
  note t3 = C10_detected_total_replaces_estimate
      [of "''c9''" 7 False ?t3 localWorld sampleVehicle sampleData AUDIT 0 "[]"]
  note t4 = C10_detected_total_replaces_estimate
      [of "''c9''" 7 False ?t4 localWorld sampleVehicle sampleData AUDIT "1 / 2" "[46, 53]"]
  have c: "serviceDepartmentEstimate (data (newCaseOf ''c9'' 7 (analyzeInspection_result ?t1)
             sampleVehicle sampleData AUDIT)) = Some (F64 (2469 / 2)) \<and>
           caseVariance (newCaseOf ''c9'' 7 (analyzeInspection_result ?t1)
             sampleVehicle sampleData AUDIT) = F64 (869 / 2)"
    using t1 [THEN conjunct2, THEN conjunct2, THEN conjunct2, THEN conjunct1] tr
    unfolding a g by (simp add: r)
  have st: "map (\<lambda>c. (case_id c, serviceDepartmentEstimate (data c)))
     (getAllCases False (snd (handleAnalyze ''c9'' 7 False (Response ?t1)
        localWorld sampleVehicle sampleData AUDIT))) = [(''c9'', Some (F64 (2469 / 2)))]"
    using a by (simp add: handleAnalyze_def Let_def saveCase_def setLocal_def getAllCases_def
          localWorld_def emptyLocalStorage_def newCaseOf_def js_or_def)
  have d: "serviceDepartmentEstimate (data (newCaseOf ''c9'' 7 (analyzeInspection_result ?t2)
             sampleVehicle sampleData AUDIT)) = Some (F64 1000)"
    using t2 [THEN conjunct2, THEN conjunct2, THEN conjunct2, THEN conjunct2, THEN conjunct1]
    unfolding b e by simp
  have d0: "serviceDepartmentEstimate (data (newCaseOf ''c9'' 7 (analyzeInspection_result ?t3)
             sampleVehicle sampleData AUDIT)) = Some (F64 1000)"
    using t3 [THEN conjunct2, THEN conjunct2, THEN conjunct2, THEN conjunct2, THEN conjunct1]
    unfolding z e by simp
  have dh: "serviceDepartmentEstimate (data (newCaseOf ''c9'' 7 (analyzeInspection_result ?t4)
             sampleVehicle sampleData AUDIT)) = Some (F64 (1 / 2))"
    using t4 [THEN conjunct2, THEN conjunct2, THEN conjunct2, THEN conjunct1]
    unfolding h by simp
  show ?thesis
    by (intro conjI a tr e c [THEN conjunct1] c [THEN conjunct2] st b d z d0 hm hs h dh nb)
qed

text \<open>
  C10, as stated, fails on a marker whose captured text is a lone dot: the marker is
  present, the detected total is \<open>NaN\<close>, not 0, and the estimate entered by the user is
  kept.
\<close>

theorem C10_counterexample:
  "matchTotal (result_text (analyzeInspection_result (Some (unitsOf ''[DETECTED_TOTAL: .]''))))
     = Some [46] \<and>
   result_detectedTotal (analyzeInspection_result (Some (unitsOf ''[DETECTED_TOTAL: .]'')))
     = Some NaN64 \<and>
   serviceDepartmentEstimate sampleData = Some (F64 1000) \<and>
   serviceDepartmentEstimate (data (newCaseOf ''c9'' 7
       (analyzeInspection_result (Some (unitsOf ''[DETECTED_TOTAL: .]''))) sampleVehicle sampleData AUDIT))
     = Some (F64 1000) \<and>
   fst (handleAnalyze ''c9'' 7 False (Response (Some (unitsOf ''[DETECTED_TOTAL: .]''))) localWorld
          sampleVehicle sampleData AUDIT)
     = Some (newCaseOf ''c9'' 7
       (analyzeInspection_result (Some (unitsOf ''[DETECTED_TOTAL: .]''))) sampleVehicle sampleData AUDIT)"
proof -
  have a: "result_detectedTotal (analyzeInspection_result (Some (unitsOf ''[DETECTED_TOTAL: .]'')))
     = Some NaN64"
    by (simp add: parse_eval)
  have m: "matchTotal (result_text (analyzeInspection_result (Some (unitsOf ''[DETECTED_TOTAL: .]''))))
     = Some [46]"
    by (simp add: parse_eval)
  have e: "serviceDepartmentEstimate sampleData = Some (F64 1000)" by (simp add: sampleData_def)
  have k: "serviceDepartmentEstimate (data (newCaseOf ''c9'' 7
       (analyzeInspection_result (Some (unitsOf ''[DETECTED_TOTAL: .]''))) sampleVehicle sampleData AUDIT))
     = Some (F64 1000)"
    unfolding newCaseOf_def a by (simp add: js_or_def e)
  have f: "fst (handleAnalyze ''c9'' 7 False (Response (Some (unitsOf ''[DETECTED_TOTAL: .]''))) localWorld
          sampleVehicle sampleData AUDIT)
     = Some (newCaseOf ''c9'' 7
       (analyzeInspection_result (Some (unitsOf ''[DETECTED_TOTAL: .]''))) sampleVehicle sampleData AUDIT)"
    by (simp add: handleAnalyze_def Let_def)
  show ?thesis by (intro conjI m a e k f)
qed

end
